theory Spec2Isabelle
  imports Main "HOL-Library.Word"
begin

unbundle bit_operations_syntax

section \<open>Looking Glass host service: the data model\<close>

text \<open>
  The development embeds \<^verbatim>\<open>src/host/Service.cpp\<close>: the layout of the shared
  memory (\<^verbatim>\<open>InitPointers\<close>), \<^verbatim>\<open>Initialize\<close>, \<^verbatim>\<open>DeInitialize\<close>, the
  capture cycle \<^verbatim>\<open>Process\<close> and the body of \<^verbatim>\<open>CursorThread\<close>.

  Addresses, sizes and offsets are 64-bit unsigned machine words (\<^verbatim>\<open>uintptr_t\<close>,
  \<^verbatim>\<open>size_t\<close>, \<^verbatim>\<open>UINT64\<close> on the x64 host), so that pointer arithmetic wraps as the
  code's does. Flag bytes are 8-bit words. Values that the code only copies from
  the capture backend into the descriptors (type tags, widths, pitches, pixel
  payloads) are natural numbers.
\<close>

type_synonym addr = "64 word"
type_synonym u8 = "8 word"

text \<open>The result of \<^verbatim>\<open>ICapture::Capture\<close> and \<^verbatim>\<open>ICapture::GetFrame\<close>.\<close>

datatype GrabStatus =
    GRAB_STATUS_OK
  | GRAB_STATUS_TIMEOUT
  | GRAB_STATUS_CURSOR
  | GRAB_STATUS_ERROR
  | GRAB_STATUS_REINIT

text \<open>
  The constants of \<^verbatim>\<open>common/KVMFR.h\<close> and the numbering of the \<^verbatim>\<open>GrabStatus\<close>
  enumeration are declared in headers that are not part of the source at hand; the
  functions below take them as parameters. \<open>GrabStatus_value\<close> is the integer an
  enumerator converts to (\<^verbatim>\<open>Process\<close> returns one as \<^verbatim>\<open>bool\<close>);
  \<open>version_bits\<close> is the width of the cursor descriptor's version counter.
\<close>

record params =
  MAX_FRAMES :: nat
  sizeof_KVMFRHeader :: addr
  KVMFR_HEADER_FLAG_RESTART :: u8
  KVMFR_HEADER_FLAG_PAUSED :: u8
  KVMFR_FRAME_FLAG_UPDATE :: u8
  KVMFR_CURSOR_FLAG_POS :: u8
  KVMFR_CURSOR_FLAG_SHAPE :: u8
  KVMFR_CURSOR_FLAG_VISIBLE :: u8
  KVMFR_CURSOR_FLAG_UPDATE :: u8
  GrabStatus_value :: "GrabStatus \<Rightarrow> int"
  version_bits :: nat

record KVMFRFrame =
  frame_flags :: u8
  frame_type :: nat
  frame_width :: nat
  frame_height :: nat
  frame_stride :: nat
  frame_pitch :: nat
  frame_dataPos :: addr

record KVMFRCursor =
  cursor_flags :: u8
  cursor_x :: int
  cursor_y :: int
  cursor_version :: nat
  cursor_type :: nat
  cursor_width :: nat
  cursor_height :: nat
  cursor_pitch :: nat
  cursor_dataPos :: addr

text \<open>
  The contents of the mapped region: the header at offset 0 (\<open>hdr_stamped\<close> records
  that magic and version have been written) and, for the data regions, the payload
  stored at an absolute address (a frame's pixels at the start of its slot, the
  cursor shape at the start of the cursor region).
\<close>

record Shm =
  hdr_stamped :: bool
  hdr_flags :: u8
  hdr_frame :: KVMFRFrame
  hdr_cursor :: KVMFRCursor
  shm_data :: "addr \<Rightarrow> nat"

record CursorInfo =
  ci_updated :: bool
  ci_visible :: bool
  ci_hasShape :: bool
  ci_hasPos :: bool
  ci_x :: int
  ci_y :: int
  ci_type :: nat
  ci_w :: nat
  ci_h :: nat
  ci_pitch :: nat
  ci_dataSize :: addr
  ci_shape :: nat

text \<open>
  The members of \<^verbatim>\<open>Service\<close> that the functions read or write. A pointer is its
  address, \<open>0\<close> for \<^verbatim>\<open>NULL\<close>; \<open>m_capture\<close> records whether the capture device
  pointer is set; \<open>m_cursorEvent\<close> is the signalled state of the auto-reset event.
\<close>

record Service =
  m_initialized :: bool
  m_memory :: addr
  m_capture :: bool
  m_shmHeader :: addr
  m_frameIndex :: int
  m_cursorDataSize :: addr
  m_cursorData :: addr
  m_cursorOffset :: addr
  m_haveFrame :: bool
  m_frameSize :: addr
  m_frame :: "addr list"
  m_dataOffset :: "addr list"
  m_cursorInfo :: CursorInfo
  m_cursorEvent :: bool

section \<open>The layout of the mapped region\<close>

text \<open>
  \<^verbatim>\<open>#define ALIGN_DN(x) ((uintptr_t)(x) & ~0x7F)\<close> and
  \<^verbatim>\<open>#define ALIGN_UP(x) ALIGN_DN(x + 0x7F)\<close>.
\<close>

definition ALIGN_DN :: "addr \<Rightarrow> addr" where
  "ALIGN_DN x = x AND NOT 0x7F"

definition ALIGN_UP :: "addr \<Rightarrow> addr" where
  "ALIGN_UP x = ALIGN_DN (x + 0x7F)"

text \<open>
  \<^verbatim>\<open>InitPointers\<close>, with the size that \<^verbatim>\<open>m_ivshmem->GetSize()\<close> returns, an
  unsigned 64-bit quantity. The subtraction \<^verbatim>\<open>GetSize() - (m_frames - m_memory)\<close>
  is unsigned and wraps when the frames start beyond the size; the division is by
  \<^verbatim>\<open>MAX_FRAMES\<close> converted to the same unsigned type (the properties below are
  stated for a positive \<^verbatim>\<open>MAX_FRAMES\<close>). The loop over the slots is the \<open>map\<close>
  over \<open>[0 ..< MAX_FRAMES]\<close>. The function always returns \<^verbatim>\<open>true\<close>.
\<close>

definition InitPointers :: "params \<Rightarrow> addr \<Rightarrow> Service \<Rightarrow> bool \<times> Service" where
  "InitPointers P sz svc =
    (let memory = m_memory svc;
         cursorData = ALIGN_UP (memory + sizeof_KVMFRHeader P);
         cursorDataSize = 1048576;
         cursorOffset = cursorData - memory;
         m_frames = ALIGN_UP (cursorData + cursorDataSize);
         frameSize = ALIGN_DN ((sz - (m_frames - memory)) div of_nat (MAX_FRAMES P));
         frame = map (\<lambda>i. m_frames + of_nat i * frameSize) [0 ..< MAX_FRAMES P];
         dataOffset = map (\<lambda>a. a - memory) frame
     in (True, svc\<lparr>m_shmHeader := memory,
                   m_cursorData := cursorData,
                   m_cursorDataSize := cursorDataSize,
                   m_cursorOffset := cursorOffset,
                   m_frameSize := frameSize,
                   m_frame := frame,
                   m_dataOffset := dataOffset\<rparr>))"

text \<open>
  \<^verbatim>\<open>DeInitialize\<close>. It starts with
  \<^verbatim>\<open>WaitForSingleObject(m_cursorThread, INFINITE)\<close> (line 140). The cursor thread is
  created on the successful path of \<^verbatim>\<open>Initialize\<close> (line 92), the path that sets
  \<^verbatim>\<open>m_initialized\<close>, and it leaves \<^verbatim>\<open>while (m_capture)\<close> (line 359) only once
  \<^verbatim>\<open>m_capture\<close> is \<^verbatim>\<open>NULL\<close>, which only line 162 makes it, after the wait. So on
  an initialised service whose capture device is set the wait never returns: the
  result is \<open>None\<close>. Otherwise no cursor thread is left running, the wait
  returns, every pointer is reset and the geometry is zeroed. The mapped region is
  not touched.
\<close>

definition DeInitialize :: "params \<Rightarrow> Service \<Rightarrow> Service option" where
  "DeInitialize P svc =
     (if m_initialized svc \<and> m_capture svc then None
      else Some (svc\<lparr>m_shmHeader := 0,
         m_cursorData := 0,
         m_cursorDataSize := 0,
         m_cursorOffset := 0,
         m_haveFrame := False,
         m_frame := replicate (MAX_FRAMES P) 0,
         m_dataOffset := replicate (MAX_FRAMES P) 0,
         m_frameSize := 0,
         m_capture := False,
         m_memory := 0,
         m_initialized := False\<rparr>))"

text \<open>
  \<^verbatim>\<open>DeInitialize(); return false;\<close>, the way every failing path of
  \<^verbatim>\<open>Initialize\<close> ends: \<open>None\<close> when \<^verbatim>\<open>DeInitialize\<close> does not return.
\<close>

definition deinitialize_return_false ::
  "params \<Rightarrow> Service \<Rightarrow> Shm \<Rightarrow> (bool \<times> Service \<times> Shm) option"
where
  "deinitialize_return_false P svc shm =
     (case DeInitialize P svc of None \<Rightarrow> None | Some svc1 \<Rightarrow> Some (False, svc1, shm))"

text \<open>
  What \<^verbatim>\<open>Initialize\<close> learns from its collaborators: whether the shared-memory
  device initialises, the size and the base address it reports (\<open>0\<close> for a
  \<^verbatim>\<open>NULL\<close> mapping), and the capture device's maximum frame size.
\<close>

record init_env =
  ivshmem_Initialize :: bool
  ivshmem_GetSize :: addr
  ivshmem_GetMemory :: addr
  capture_GetMaxFrameSize :: addr

definition zero_frame :: KVMFRFrame where
  "zero_frame = \<lparr>frame_flags = 0, frame_type = 0, frame_width = 0, frame_height = 0,
     frame_stride = 0, frame_pitch = 0, frame_dataPos = 0\<rparr>"

definition zero_cursor :: KVMFRCursor where
  "zero_cursor = \<lparr>cursor_flags = 0, cursor_x = 0, cursor_y = 0, cursor_version = 0,
     cursor_type = 0, cursor_width = 0, cursor_height = 0, cursor_pitch = 0,
     cursor_dataPos = 0\<rparr>"

text \<open>
  \<^verbatim>\<open>Initialize\<close>. The result is \<open>None\<close> when the call never returns (it is
  made on an initialised service, and \<^verbatim>\<open>DeInitialize\<close> waits for the cursor
  thread for ever); otherwise it is the returned \<^verbatim>\<open>bool\<close>, the service and the
  mapped region. The region is written only on the last path, after every check.
  The capture device passed in is taken to be non-null; the cursor event is created
  non-signalled; the creation of the thread and of the critical section leave no
  other trace in the state.
\<close>

definition Initialize ::
  "params \<Rightarrow> init_env \<Rightarrow> Service \<Rightarrow> Shm \<Rightarrow> (bool \<times> Service \<times> Shm) option"
where
  "Initialize P env svc0 shm =
    (case (if m_initialized svc0 then DeInitialize P svc0 else Some svc0) of
       None \<Rightarrow> None
     | Some svc1 \<Rightarrow>
        (let svc2 = svc1\<lparr>m_capture := True\<rparr>
         in if \<not> ivshmem_Initialize env then deinitialize_return_false P svc2 shm
            else if ivshmem_GetSize env < sizeof_KVMFRHeader P
              then deinitialize_return_false P svc2 shm
            else
              let svc3 = svc2\<lparr>m_memory := ivshmem_GetMemory env\<rparr>
              in if m_memory svc3 = 0 then deinitialize_return_false P svc3 shm
                 else
                   let (ok, svc4) = InitPointers P (ivshmem_GetSize env) svc3
                   in if \<not> ok then deinitialize_return_false P svc4 shm
                      else if capture_GetMaxFrameSize env > m_frameSize svc4
                        then deinitialize_return_false P svc4 shm
                      else
                        Some (True,
                          svc4\<lparr>m_cursorEvent := False, m_haveFrame := False,
                               m_initialized := True\<rparr>,
                          shm\<lparr>hdr_stamped := True,
                              hdr_frame := zero_frame,
                              hdr_cursor := zero_cursor,
                              hdr_flags :=
                                hdr_flags shm AND NOT (KVMFR_HEADER_FLAG_RESTART P)\<rparr>)))"

section \<open>The capture cycle\<close>

text \<open>
  Modelled from the spec: the consumer, whose code is not part of this source. It
  clears the frame descriptor's UPDATE bit after it has copied a frame, raises the
  global RESTART bit, and acknowledges a cursor update by zeroing the cursor
  descriptor's flag byte.
\<close>

datatype client_action = ClientFrameDone | ClientRestart | ClientCursorDone | ClientIdle

fun client :: "params \<Rightarrow> client_action \<Rightarrow> Shm \<Rightarrow> Shm" where
  "client P ClientFrameDone shm =
     shm\<lparr>hdr_frame := (hdr_frame shm)\<lparr>frame_flags :=
       frame_flags (hdr_frame shm) AND NOT (KVMFR_FRAME_FLAG_UPDATE P)\<rparr>\<rparr>"
| "client P ClientRestart shm =
     shm\<lparr>hdr_flags := hdr_flags shm OR KVMFR_HEADER_FLAG_RESTART P\<rparr>"
| "client P ClientCursorDone shm =
     shm\<lparr>hdr_cursor := (hdr_cursor shm)\<lparr>cursor_flags := 0\<rparr>\<rparr>"
| "client P ClientIdle shm = shm"

text \<open>
  One answer of the capture device to \<^verbatim>\<open>Capture()\<close>. For
  \<^verbatim>\<open>GRAB_STATUS_REINIT\<close> it also says whether the wait for the console session
  and the wait for \<^verbatim>\<open>CanInitialize()\<close> ever end, what \<^verbatim>\<open>ReInitialize()\<close> returns
  and what \<^verbatim>\<open>GetMaxFrameSize()\<close> returns afterwards.
\<close>

record attempt =
  cap_status :: GrabStatus
  cap_session_returns :: bool
  cap_can_initialize :: bool
  cap_reinit_ok :: bool
  cap_max_frame :: addr

text \<open>What \<^verbatim>\<open>GetFrame\<close> stores: the frame's geometry and, into the buffer, its pixels.\<close>

record FrameInfo =
  fi_width :: nat
  fi_height :: nat
  fi_stride :: nat
  fi_pitch :: nat
  fi_pixels :: nat

text \<open>
  Everything one call of \<^verbatim>\<open>Process\<close> reads from outside: the answers of the capture
  device, in the order the calls are made, and what the consumer does to the mapped
  region while the producer polls it (one action between two polls).
\<close>

record cycle_env =
  restart_ReInitialize :: bool
  restart_GetMaxFrameSize :: addr
  captures :: "attempt list"
  GetCursor :: CursorInfo
  GetFrame_status :: GrabStatus
  GetFrame_frame :: FrameInfo
  GetFrameType :: nat
  client_actions :: "client_action list"

text \<open>
  A call either returns a \<^verbatim>\<open>bool\<close> or never returns: \<open>Spinning\<close> carries the
  state in which it polls forever (the environment's script has ended and the loop's
  exit condition still does not hold).
\<close>

datatype outcome = Returned bool Service Shm | Spinning Service Shm

text \<open>
  The restart request at the top of the cycle (lines 176 to 193): \<open>None\<close> is
  \<^verbatim>\<open>return false\<close>.
\<close>

definition restart_check :: "params \<Rightarrow> cycle_env \<Rightarrow> Service \<Rightarrow> Shm \<Rightarrow> Shm option" where
  "restart_check P env svc shm =
    (if hdr_flags shm AND KVMFR_HEADER_FLAG_RESTART P \<noteq> 0 then
       if \<not> restart_ReInitialize env then None
       else if restart_GetMaxFrameSize env > m_frameSize svc then None
       else Some (shm\<lparr>hdr_flags := hdr_flags shm AND NOT (KVMFR_HEADER_FLAG_RESTART P)\<rparr>)
     else Some shm)"

text \<open>
  The capture loop \<^verbatim>\<open>for (int i = 0; i < 2; ++i)\<close> (lines 200 to 267), from a given
  value of \<open>i\<close>. \<open>LoopOk cursorOnly repeat\<close> is the \<^verbatim>\<open>break\<close> with \<^verbatim>\<open>ok\<close> set,
  \<open>LoopReturnFalse\<close> a \<^verbatim>\<open>return false\<close> inside the loop, \<open>LoopExceeded\<close> the exit
  through the loop condition with \<^verbatim>\<open>ok\<close> still false, \<open>LoopSpins\<close> a loop that
  does not end. \<^verbatim>\<open>--i; continue;\<close> is \<open>i - 1 + 1\<close>. The answers not yet used are
  returned with the state.
\<close>

datatype loop_exit = LoopOk bool bool | LoopReturnFalse | LoopExceeded | LoopSpins

fun capture_loop ::
  "params \<Rightarrow> int \<Rightarrow> attempt list \<Rightarrow> Service \<Rightarrow> Shm \<Rightarrow> loop_exit \<times> Service \<times> Shm \<times> attempt list"
where
  "capture_loop P i [] svc shm =
     (if i < 2 then (LoopSpins, svc, shm, []) else (LoopExceeded, svc, shm, []))"
| "capture_loop P i (a # as) svc shm =
     (if \<not> i < 2 then (LoopExceeded, svc, shm, a # as)
      else case cap_status a of
        GRAB_STATUS_OK \<Rightarrow> (LoopOk False False, svc, shm, as)
      | GRAB_STATUS_TIMEOUT \<Rightarrow>
          if m_haveFrame svc then
            (LoopOk False True,
             svc\<lparr>m_frameIndex :=
               (if m_frameIndex svc - 1 < 0 then int (MAX_FRAMES P) - 1
                else m_frameIndex svc - 1)\<rparr>,
             shm, as)
          else capture_loop P (i - 1 + 1) as svc shm
      | GRAB_STATUS_CURSOR \<Rightarrow> (LoopOk True False, svc, shm, as)
      | GRAB_STATUS_ERROR \<Rightarrow> (LoopReturnFalse, svc, shm, as)
      | GRAB_STATUS_REINIT \<Rightarrow>
          (let shm1 = shm\<lparr>hdr_flags := hdr_flags shm OR KVMFR_HEADER_FLAG_PAUSED P\<rparr>
           in if \<not> cap_session_returns a then (LoopSpins, svc, shm1, as)
              else if \<not> cap_can_initialize a then (LoopSpins, svc, shm1, as)
              else if \<not> cap_reinit_ok a then (LoopReturnFalse, svc, shm1, as)
              else if cap_max_frame a > m_frameSize svc then (LoopReturnFalse, svc, shm1, as)
              else capture_loop P (i - 1 + 1) as svc
                     (shm1\<lparr>hdr_flags :=
                        hdr_flags shm1 AND NOT (KVMFR_HEADER_FLAG_PAUSED P)\<rparr>)))"

text \<open>Staging the cursor update for the cursor thread (lines 275 to 301).\<close>

definition stage_cursor :: "CursorInfo \<Rightarrow> Service \<Rightarrow> Service" where
  "stage_cursor cursor svc =
    (if ci_updated cursor then
       let c0 = m_cursorInfo svc;
           c1 = (if ci_hasPos cursor
                 then c0\<lparr>ci_hasPos := True, ci_x := ci_x cursor, ci_y := ci_y cursor\<rparr>
                 else c0);
           c2 = (if ci_hasShape cursor
                 then c1\<lparr>ci_hasShape := True,
                         ci_dataSize := ci_dataSize cursor,
                         ci_type := ci_type cursor,
                         ci_w := ci_w cursor,
                         ci_h := ci_h cursor,
                         ci_pitch := ci_pitch cursor,
                         ci_shape := ci_shape cursor\<rparr>
                 else c1);
           c3 = c2\<lparr>ci_visible := ci_visible cursor\<rparr>
       in svc\<lparr>m_cursorInfo := c3, m_cursorEvent := True\<rparr>
     else svc)"

text \<open>
  The busy-wait \<^verbatim>\<open>while (fi->flags & KVMFR_FRAME_FLAG_UPDATE) { if (*flags &
  KVMFR_HEADER_FLAG_RESTART) break; }\<close> (lines 319 to 323 and 341 to 345). Both
  reads are of the mapped region; the consumer acts between two polls.
\<close>

datatype wait_result = Proceed Shm | Blocked Shm

fun frame_wait :: "params \<Rightarrow> client_action list \<Rightarrow> Shm \<Rightarrow> wait_result" where
  "frame_wait P [] shm =
     (if frame_flags (hdr_frame shm) AND KVMFR_FRAME_FLAG_UPDATE P = 0 then Proceed shm
      else if hdr_flags shm AND KVMFR_HEADER_FLAG_RESTART P \<noteq> 0 then Proceed shm
      else Blocked shm)"
| "frame_wait P (a # as) shm =
     (if frame_flags (hdr_frame shm) AND KVMFR_FRAME_FLAG_UPDATE P = 0 then Proceed shm
      else if hdr_flags shm AND KVMFR_HEADER_FLAG_RESTART P \<noteq> 0 then Proceed shm
      else frame_wait P as (client P a shm))"

text \<open>\<^verbatim>\<open>fi->flags |= KVMFR_FRAME_FLAG_UPDATE\<close> (line 349).\<close>

definition signal_frame :: "params \<Rightarrow> Shm \<Rightarrow> Shm" where
  "signal_frame P shm =
     shm\<lparr>hdr_frame := (hdr_frame shm)\<lparr>frame_flags :=
       frame_flags (hdr_frame shm) OR KVMFR_FRAME_FLAG_UPDATE P\<rparr>\<rparr>"

text \<open>\<^verbatim>\<open>INTERLOCKED_AND8((volatile char *)flags, KVMFR_HEADER_FLAG_RESTART)\<close> (line 353).\<close>

definition end_of_cycle :: "params \<Rightarrow> Shm \<Rightarrow> Shm" where
  "end_of_cycle P shm = shm\<lparr>hdr_flags := hdr_flags shm AND KVMFR_HEADER_FLAG_RESTART P\<rparr>"

text \<open>
  The write of the frame descriptor (lines 325 to 330) for the slot \<open>idx\<close>.
\<close>

definition write_frame_info :: "cycle_env \<Rightarrow> addr \<Rightarrow> Shm \<Rightarrow> Shm" where
  "write_frame_info env dataPos shm =
     shm\<lparr>hdr_frame := (hdr_frame shm)\<lparr>
       frame_type := GetFrameType env,
       frame_width := fi_width (GetFrame_frame env),
       frame_height := fi_height (GetFrame_frame env),
       frame_stride := fi_stride (GetFrame_frame env),
       frame_pitch := fi_pitch (GetFrame_frame env),
       frame_dataPos := dataPos\<rparr>\<rparr>"

text \<open>
  The new-frame branch (lines 310 to 336, then 349 and 353). \<^verbatim>\<open>GetFrame\<close> is given
  the buffer \<^verbatim>\<open>m_frame[m_frameIndex]\<close> and, when it answers \<^verbatim>\<open>GRAB_STATUS_OK\<close>,
  has stored the pixels there; on another answer the model leaves the buffer as it
  was, and \<^verbatim>\<open>return result\<close> converts the enumerator to \<^verbatim>\<open>bool\<close>. The index
  is an \<^verbatim>\<open>int\<close> that stays within \<open>0 .. MAX_FRAMES - 1\<close> (both updates wrap it),
  so the array accesses are in range.
\<close>

definition publish_new :: "params \<Rightarrow> cycle_env \<Rightarrow> Service \<Rightarrow> Shm \<Rightarrow> outcome" where
  "publish_new P env svc shm =
    (let idx = nat (m_frameIndex svc);
         buffer = m_frame svc ! idx
     in if GetFrame_status env \<noteq> GRAB_STATUS_OK
        then Returned (GrabStatus_value P (GetFrame_status env) \<noteq> 0) svc shm
        else
          let shm1 = shm\<lparr>shm_data := (shm_data shm)(buffer := fi_pixels (GetFrame_frame env))\<rparr>
          in case frame_wait P (client_actions env) shm1 of
               Blocked shm2 \<Rightarrow> Spinning svc shm2
             | Proceed shm2 \<Rightarrow>
                 let shm3 = write_frame_info env (m_dataOffset svc ! idx) shm2;
                     svc1 = svc\<lparr>m_frameIndex :=
                              (if m_frameIndex svc + 1 = int (MAX_FRAMES P) then 0
                               else m_frameIndex svc + 1)\<rparr>;
                     svc2 = svc1\<lparr>m_haveFrame := True\<rparr>
                 in Returned True svc2 (end_of_cycle P (signal_frame P shm3)))"

text \<open>The repeated-frame branch (lines 338 to 346, then 349 and 353).\<close>

definition publish_repeat :: "params \<Rightarrow> cycle_env \<Rightarrow> Service \<Rightarrow> Shm \<Rightarrow> outcome" where
  "publish_repeat P env svc shm =
    (case frame_wait P (client_actions env) shm of
       Blocked shm2 \<Rightarrow> Spinning svc shm2
     | Proceed shm2 \<Rightarrow> Returned True svc (end_of_cycle P (signal_frame P shm2)))"

text \<open>
  The rest of the cycle once the capture loop has ended (lines 269 to 355): the
  check of \<^verbatim>\<open>ok\<close>, the staging of the cursor, the frame branches and the final
  update of the global flags.
\<close>

definition after_capture ::
  "params \<Rightarrow> cycle_env \<Rightarrow> loop_exit \<times> Service \<times> Shm \<times> attempt list \<Rightarrow> outcome"
where
  "after_capture P env r =
    (case r of
       (LoopSpins, svc2, shm2, rest) \<Rightarrow> Spinning svc2 shm2
     | (LoopReturnFalse, svc2, shm2, rest) \<Rightarrow> Returned False svc2 shm2
     | (LoopExceeded, svc2, shm2, rest) \<Rightarrow> Returned False svc2 shm2
     | (LoopOk cursorOnly repeat, svc2, shm2, rest) \<Rightarrow>
         let svc3 = stage_cursor (GetCursor env) svc2
         in if cursorOnly then Returned True svc3 (end_of_cycle P shm2)
            else if repeat then publish_repeat P env svc3 shm2
            else publish_new P env svc3 shm2)"

text \<open>\<^verbatim>\<open>Service::Process\<close>.\<close>

definition Process :: "params \<Rightarrow> cycle_env \<Rightarrow> Service \<Rightarrow> Shm \<Rightarrow> outcome" where
  "Process P env svc shm =
    (if \<not> m_initialized svc then Returned False svc shm
     else case restart_check P env svc shm of
       None \<Rightarrow> Returned False svc shm
     | Some shm1 \<Rightarrow> after_capture P env (capture_loop P 0 (captures env) svc shm1))"

section \<open>The cursor thread\<close>

text \<open>
  What happens around the cursor thread while it sleeps in its wait loop: the
  consumer acts on the mapped region, or the service releases the capture device
  (\<^verbatim>\<open>m_capture = NULL\<close> in \<^verbatim>\<open>DeInitialize\<close>).
\<close>

datatype thread_event = ClientDoes client_action | CaptureReleased

fun thread_env :: "params \<Rightarrow> thread_event \<Rightarrow> Service \<Rightarrow> Shm \<Rightarrow> Service \<times> Shm" where
  "thread_env P (ClientDoes a) svc shm = (svc, client P a shm)"
| "thread_env P CaptureReleased svc shm = (svc\<lparr>m_capture := False\<rparr>, shm)"

text \<open>
  \<^verbatim>\<open>while (cursor->flags != 0) { Sleep(2); if (!m_capture) return 0; }\<close> (lines 366
  to 371): \<open>Ready\<close> when the flag byte is read as zero, \<open>ThreadExit\<close> for
  \<^verbatim>\<open>return 0\<close>, \<open>StillWaiting\<close> when the script ends with the flag byte set.
\<close>

datatype cursor_wait_result =
  Ready Service Shm | ThreadExit Service Shm | StillWaiting Service Shm

fun cursor_wait :: "params \<Rightarrow> thread_event list \<Rightarrow> Service \<Rightarrow> Shm \<Rightarrow> cursor_wait_result" where
  "cursor_wait P [] svc shm =
     (if cursor_flags (hdr_cursor shm) = 0 then Ready svc shm else StillWaiting svc shm)"
| "cursor_wait P (e # es) svc shm =
     (if cursor_flags (hdr_cursor shm) = 0 then Ready svc shm
      else case thread_env P e svc shm of
             (svc1, shm1) \<Rightarrow>
               if \<not> m_capture svc1 then ThreadExit svc1 shm1
               else cursor_wait P es svc1 shm1)"

text \<open>The position update (lines 374 to 387).\<close>

definition publish_position :: "params \<Rightarrow> Service \<Rightarrow> Shm \<Rightarrow> Service \<times> Shm" where
  "publish_position P svc shm =
    (if ci_hasPos (m_cursorInfo svc) then
       let info = m_cursorInfo svc;
           svc1 = svc\<lparr>m_cursorInfo := info\<lparr>ci_hasPos := False\<rparr>\<rparr>;
           c = hdr_cursor shm;
           c1 = c\<lparr>cursor_flags := cursor_flags c OR KVMFR_CURSOR_FLAG_POS P\<rparr>;
           c2 = c1\<lparr>cursor_x := ci_x info, cursor_y := ci_y info\<rparr>;
           c3 = (if ci_visible info
                 then c2\<lparr>cursor_flags := cursor_flags c2 OR KVMFR_CURSOR_FLAG_VISIBLE P\<rparr>
                 else c2\<lparr>cursor_flags :=
                        cursor_flags c2 AND NOT (KVMFR_CURSOR_FLAG_VISIBLE P)\<rparr>)
       in (svc1, shm\<lparr>hdr_cursor := c3\<rparr>)
     else (svc, shm))"

text \<open>
  The shape update (lines 389 to 408). The third component is what \<^verbatim>\<open>DEBUG_ERROR\<close>
  prints. \<^verbatim>\<open>++cursor->version\<close> wraps at the counter's width.
\<close>

definition publish_shape :: "params \<Rightarrow> Service \<Rightarrow> Shm \<Rightarrow> Service \<times> Shm \<times> string list" where
  "publish_shape P svc shm =
    (if ci_hasShape (m_cursorInfo svc) then
       let info = m_cursorInfo svc;
           svc1 = svc\<lparr>m_cursorInfo := info\<lparr>ci_hasShape := False\<rparr>\<rparr>
       in if ci_dataSize info > m_cursorDataSize svc
          then (svc1, shm, [''Cursor size exceeds allocated space''])
          else
            let c = hdr_cursor shm;
                c1 = c\<lparr>cursor_flags := cursor_flags c OR KVMFR_CURSOR_FLAG_SHAPE P\<rparr>;
                c2 = c1\<lparr>cursor_version := (cursor_version c1 + 1) mod 2 ^ version_bits P\<rparr>;
                c3 = c2\<lparr>cursor_type := ci_type info,
                        cursor_width := ci_w info,
                        cursor_height := ci_h info,
                        cursor_pitch := ci_pitch info,
                        cursor_dataPos := m_cursorOffset svc\<rparr>
            in (svc1,
                shm\<lparr>hdr_cursor := c3,
                    shm_data := (shm_data shm)(m_cursorData svc := ci_shape info)\<rparr>,
                [])
     else (svc, shm, []))"

text \<open>The critical section (lines 373 to 410): position, then shape.\<close>

definition cursor_payload :: "params \<Rightarrow> Service \<Rightarrow> Shm \<Rightarrow> Service \<times> Shm \<times> string list" where
  "cursor_payload P svc shm =
    (case publish_position P svc shm of
       (svc1, shm1) \<Rightarrow> publish_shape P svc1 shm1)"

text \<open>\<^verbatim>\<open>cursor->flags |= KVMFR_CURSOR_FLAG_UPDATE\<close> (line 411).\<close>

definition signal_cursor :: "params \<Rightarrow> Shm \<Rightarrow> Shm" where
  "signal_cursor P shm =
     shm\<lparr>hdr_cursor := (hdr_cursor shm)\<lparr>cursor_flags :=
       cursor_flags (hdr_cursor shm) OR KVMFR_CURSOR_FLAG_UPDATE P\<rparr>\<rparr>"

text \<open>
  One pass of \<^verbatim>\<open>while (m_capture)\<close> in \<^verbatim>\<open>CursorThread\<close>: \<open>Continue\<close> goes back to
  the loop condition (with the diagnostics printed), \<open>Return0\<close> leaves the thread,
  \<open>Polling\<close> is a pass that does not end. The event is auto-reset: a wait that
  finds it signalled clears it; a wait that times out goes straight back to the
  loop condition.
\<close>

datatype thread_step =
  Continue Service Shm "string list" | Return0 Service Shm | Polling Service Shm

definition CursorThread_pass :: "params \<Rightarrow> thread_event list \<Rightarrow> Service \<Rightarrow> Shm \<Rightarrow> thread_step" where
  "CursorThread_pass P evs svc shm =
    (if \<not> m_capture svc then Return0 svc shm
     else if \<not> m_cursorEvent svc then Continue svc shm []
     else case cursor_wait P evs (svc\<lparr>m_cursorEvent := False\<rparr>) shm of
            ThreadExit svc1 shm1 \<Rightarrow> Return0 svc1 shm1
          | StillWaiting svc1 shm1 \<Rightarrow> Polling svc1 shm1
          | Ready svc1 shm1 \<Rightarrow>
              (case cursor_payload P svc1 shm1 of
                 (svc2, shm2, diag) \<Rightarrow> Continue svc2 (signal_cursor P shm2) diag))"

section \<open>Observations on the model and example inputs\<close>

text \<open>
  The byte ranges of the layout, as sets of offsets into the mapped region: the
  header at offset 0, the cursor region, the frame slot \<open>i\<close> and the whole
  mapping of \<open>sz\<close> bytes.
\<close>

definition header_region :: "params \<Rightarrow> nat set" where
  "header_region P = {0 ..< unat (sizeof_KVMFRHeader P)}"

definition cursor_region :: "Service \<Rightarrow> nat set" where
  "cursor_region svc =
     {unat (m_cursorOffset svc) ..< unat (m_cursorOffset svc) + unat (m_cursorDataSize svc)}"

definition slot_region :: "Service \<Rightarrow> nat \<Rightarrow> nat set" where
  "slot_region svc i =
     {unat (m_dataOffset svc ! i) ..< unat (m_dataOffset svc ! i) + unat (m_frameSize svc)}"

definition mapped_region :: "addr \<Rightarrow> nat set" where
  "mapped_region sz = {0 ..< unat sz}"

text \<open>
  Example values of the parameters that the missing headers fix (two frame slots, a
  header of 96 bytes, one bit per flag, the enumerators numbered in the order of the
  \<^verbatim>\<open>switch\<close>, a 32-bit version counter), a service as its constructor leaves it,
  a zeroed mapping, and a device of 64 MiB mapped at a page boundary.
\<close>

definition example_params :: params where
  "example_params = \<lparr>MAX_FRAMES = 2, sizeof_KVMFRHeader = 96,
     KVMFR_HEADER_FLAG_RESTART = 1, KVMFR_HEADER_FLAG_PAUSED = 2,
     KVMFR_FRAME_FLAG_UPDATE = 1,
     KVMFR_CURSOR_FLAG_POS = 1, KVMFR_CURSOR_FLAG_SHAPE = 2,
     KVMFR_CURSOR_FLAG_VISIBLE = 4, KVMFR_CURSOR_FLAG_UPDATE = 8,
     GrabStatus_value = (\<lambda>s. case s of GRAB_STATUS_OK \<Rightarrow> 0 | GRAB_STATUS_TIMEOUT \<Rightarrow> 1
        | GRAB_STATUS_CURSOR \<Rightarrow> 2 | GRAB_STATUS_ERROR \<Rightarrow> 3 | GRAB_STATUS_REINIT \<Rightarrow> 4),
     version_bits = 32\<rparr>"

definition no_cursor :: CursorInfo where
  "no_cursor = \<lparr>ci_updated = False, ci_visible = False, ci_hasShape = False, ci_hasPos = False,
     ci_x = 0, ci_y = 0, ci_type = 0, ci_w = 0, ci_h = 0, ci_pitch = 0, ci_dataSize = 0,
     ci_shape = 0\<rparr>"

definition new_Service :: Service where
  "new_Service = \<lparr>m_initialized = False, m_memory = 0, m_capture = False, m_shmHeader = 0,
     m_frameIndex = 0, m_cursorDataSize = 0, m_cursorData = 0, m_cursorOffset = 0,
     m_haveFrame = False, m_frameSize = 0, m_frame = [], m_dataOffset = [],
     m_cursorInfo = no_cursor, m_cursorEvent = False\<rparr>"

definition blank_Shm :: Shm where
  "blank_Shm = \<lparr>hdr_stamped = False, hdr_flags = 0, hdr_frame = zero_frame,
     hdr_cursor = zero_cursor, shm_data = (\<lambda>a. 0)\<rparr>"

definition example_init_env :: init_env where
  "example_init_env = \<lparr>ivshmem_Initialize = True, ivshmem_GetSize = 0x4000000,
     ivshmem_GetMemory = 0x10000000, capture_GetMaxFrameSize = 0x7E9000\<rparr>"

definition example_layout :: Service where
  "example_layout = snd (InitPointers example_params 0x4000000 (new_Service\<lparr>m_memory := 0x10000000\<rparr>))"

text \<open>
  The service and the mapping after \<^verbatim>\<open>Initialize\<close> at the example device, an
  answer of the capture device with the given status (the waits of a
  reinitialisation end, the device comes back with a full-HD frame size), and a
  cycle's environment: a full-HD frame with the given pixels, no cursor update.
\<close>

definition example_service :: Service where
  "example_service =
     (case Initialize example_params example_init_env new_Service blank_Shm of
        Some (ok, svc, shm) \<Rightarrow> svc
      | None \<Rightarrow> new_Service)"

definition example_shm :: Shm where
  "example_shm =
     (case Initialize example_params example_init_env new_Service blank_Shm of
        Some (ok, svc, shm) \<Rightarrow> shm
      | None \<Rightarrow> blank_Shm)"

definition grab :: "GrabStatus \<Rightarrow> attempt" where
  "grab st = \<lparr>cap_status = st, cap_session_returns = True, cap_can_initialize = True,
     cap_reinit_ok = True, cap_max_frame = 0x7E9000\<rparr>"

definition example_env :: "attempt list \<Rightarrow> nat \<Rightarrow> client_action list \<Rightarrow> cycle_env" where
  "example_env caps px acts = \<lparr>restart_ReInitialize = True,
     restart_GetMaxFrameSize = 0x7E9000, captures = caps, GetCursor = no_cursor,
     GetFrame_status = GRAB_STATUS_OK,
     GetFrame_frame = \<lparr>fi_width = 1920, fi_height = 1080, fi_stride = 1920,
       fi_pitch = 7680, fi_pixels = px\<rparr>,
     GetFrameType = 1, client_actions = acts\<rparr>"

text \<open>
  The results of \<^verbatim>\<open>Capture()\<close> after which the loop counter is not given back
  with \<^verbatim>\<open>--i\<close>.
\<close>

definition consumes_budget :: "attempt \<Rightarrow> bool" where
  "consumes_budget a =
     (cap_status a = GRAB_STATUS_OK \<or> cap_status a = GRAB_STATUS_CURSOR
      \<or> cap_status a = GRAB_STATUS_ERROR)"

text \<open>The state an outcome carries, returned or not.\<close>

fun outcome_service :: "outcome \<Rightarrow> Service" where
  "outcome_service (Returned b svc shm) = svc"
| "outcome_service (Spinning svc shm) = svc"

fun outcome_shm :: "outcome \<Rightarrow> Shm" where
  "outcome_shm (Returned b svc shm) = shm"
| "outcome_shm (Spinning svc shm) = shm"

text \<open>
  The example after a first frame with pixels \<open>11\<close> has been published into slot
  0, and the service after a following repeated-frame cycle, which rewinds the
  index to slot 0.
\<close>

definition published_service :: Service where
  "published_service = example_service\<lparr>m_frameIndex := 1, m_haveFrame := True\<rparr>"

definition published_shm :: Shm where
  "published_shm = example_shm\<lparr>
     hdr_frame := \<lparr>frame_flags = 1, frame_type = 1, frame_width = 1920, frame_height = 1080,
       frame_stride = 1920, frame_pitch = 7680, frame_dataPos = 1048704\<rparr>,
     shm_data := (shm_data example_shm)(269484160 := 11)\<rparr>"

definition rewound_service :: Service where
  "rewound_service = published_service\<lparr>m_frameIndex := 0\<rparr>"

text \<open>
  A repeated-frame cycle: the capture loop ends with \<^verbatim>\<open>ok\<close> and \<^verbatim>\<open>repeat\<close> set
  (a timeout when a frame has been published before). A cycle that publishes a new
  frame: the loop ends with \<^verbatim>\<open>ok\<close> set and \<^verbatim>\<open>cursorOnly\<close> and \<^verbatim>\<open>repeat\<close> clear,
  \<^verbatim>\<open>GetFrame\<close> answers \<^verbatim>\<open>GRAB_STATUS_OK\<close> and the call returns \<^verbatim>\<open>true\<close>.
\<close>

definition repeated_cycle :: "params \<Rightarrow> cycle_env \<Rightarrow> Service \<Rightarrow> Shm \<Rightarrow> bool" where
  "repeated_cycle P env svc shm =
    (m_initialized svc \<and>
     (case restart_check P env svc shm of
        None \<Rightarrow> False
      | Some shm1 \<Rightarrow> fst (capture_loop P 0 (captures env) svc shm1) = LoopOk False True))"

definition new_frame_published :: "params \<Rightarrow> cycle_env \<Rightarrow> Service \<Rightarrow> Shm \<Rightarrow> bool" where
  "new_frame_published P env svc shm =
    (m_initialized svc \<and> GetFrame_status env = GRAB_STATUS_OK \<and>
     (case restart_check P env svc shm of
        None \<Rightarrow> False
      | Some shm1 \<Rightarrow> fst (capture_loop P 0 (captures env) svc shm1) = LoopOk False False) \<and>
     (case Process P env svc shm of Returned b svc1 shm1 \<Rightarrow> b | Spinning svc1 shm1 \<Rightarrow> False))"

text \<open>
  The example service with a position update and a shape update of \<open>n\<close> bytes both
  staged and the cursor event signalled.
\<close>

definition both_staged :: "addr \<Rightarrow> Service" where
  "both_staged n = example_service\<lparr>
     m_cursorInfo := \<lparr>ci_updated = True, ci_visible = True, ci_hasShape = True,
       ci_hasPos = True, ci_x = 10, ci_y = 20, ci_type = 1, ci_w = 32, ci_h = 32,
       ci_pitch = 128, ci_dataSize = n, ci_shape = 77\<rparr>,
     m_cursorEvent := True\<rparr>"

section \<open>Properties of the layout\<close>

lemma mask7: "(0x7F::64 word) = mask 7"
  by (simp add: mask_eq_exp_minus_1)

lemma ALIGN_DN_push: "ALIGN_DN x = push_bit 7 (drop_bit 7 x)"
  unfolding ALIGN_DN_def mask7
  by (rule bit_eqI) (auto simp: bit_simps)

lemma unat_ALIGN_DN: "unat (ALIGN_DN x) = 128 * (unat x div 128)"
proof -
  have "unat (push_bit 7 (drop_bit 7 x)) = unat (drop_bit 7 x * 128)"
    by (simp add: push_bit_eq_mult)
  also have "\<dots> = unat (drop_bit 7 x) * 128"
  proof -
    have "unat (drop_bit 7 x) = unat x div 128" by (simp add: drop_bit_eq_div unat_div)
    moreover have "unat x < 2 ^ 64" using unsigned_less [of x] by simp
    ultimately have "unat (drop_bit 7 x) * unat (128 :: 64 word) < 2 ^ LENGTH(64)"
      by simp
    then show ?thesis using unat_mult_lem [of "drop_bit 7 x" "128"] by simp
  qed
  finally show ?thesis by (simp add: ALIGN_DN_push drop_bit_eq_div unat_div)
qed

lemma ALIGN_DN_minus: "ALIGN_DN x = x - take_bit 7 x"
  using bits_ident [of 7 x] by (simp add: ALIGN_DN_push algebra_simps)

lemma unat_tb7: "unat (take_bit 7 (w::64 word)) = unat w mod 128"
  by (simp add: take_bit_eq_mod unat_mod)

lemma tb_add: 
  assumes "unat (b::64 word) mod 128 = 0"
  shows "take_bit 7 (b + x) = take_bit 7 x"
proof -
  have "unat (take_bit 7 (b + x)) = ((unat b + unat x) mod 2 ^ 64) mod 128"
    by (simp add: unat_tb7 unat_word_ariths)
  also have "\<dots> = (unat b + unat x) mod 128"
    by (simp add: mod_mod_cancel)
  also have "\<dots> = unat x mod 128"
    using assms by (metis add_cancel_left_left mod_add_left_eq)
  finally have "unat (take_bit 7 (b + x)) = unat (take_bit 7 x)"
    by (simp add: unat_tb7)
  then show ?thesis by (simp only: word_unat_eq_iff)
qed

lemma ALIGN_DN_add_aligned:
  assumes "unat b mod 128 = 0"
  shows "ALIGN_DN (b + x) = b + ALIGN_DN x"
  by (simp add: ALIGN_DN_minus tb_add [OF assms])

lemma ALIGN_UP_add_aligned:
  assumes "unat b mod 128 = 0"
  shows "ALIGN_UP (b + x) = b + ALIGN_UP x"
  using ALIGN_DN_add_aligned [OF assms, of "x + 0x7F"] by (simp add: ALIGN_UP_def add.assoc)

lemma unat_ALIGN_UP:
  assumes "unat x + 127 < 2 ^ 64"
  shows "unat (ALIGN_UP x) = 128 * ((unat x + 127) div 128)"
proof -
  have "unat (x + 0x7F) = unat x + 127"
    using assms unat_add_lem [of x "0x7F"] by simp
  then show ?thesis by (simp add: ALIGN_UP_def unat_ALIGN_DN)
qed

lemma ALIGN_UP_aligned:
  assumes "unat y mod 128 = 0"
  shows "ALIGN_UP y = y"
proof -
  have "ALIGN_UP (y + 0) = y + ALIGN_UP 0" by (rule ALIGN_UP_add_aligned [OF assms])
  moreover have "ALIGN_UP 0 = 0" by (simp add: ALIGN_UP_def ALIGN_DN_def)
  ultimately show ?thesis by simp
qed


lemma InitPointers_offsets:
  fixes P :: params and svc svc' :: Service and sz :: addr and CO FO FS :: nat
  assumes CO_def: "CO = 128 * ((unat (sizeof_KVMFRHeader P) + 127) div 128)"
    and FO_def: "FO = CO + 1048576"
    and FS_def: "FS = 128 * (((unat sz - FO) div MAX_FRAMES P) div 128)"
    and svc'_def: "svc' = snd (InitPointers P sz svc)"
    and max: "0 < MAX_FRAMES P" "MAX_FRAMES P < 2 ^ 64"
    and al: "unat (m_memory svc) mod 128 = 0"
    and big: "FO \<le> unat sz"
  shows "unat (m_cursorOffset svc') = CO"
    and "m_cursorData svc' = m_memory svc + m_cursorOffset svc'"
    and "m_cursorDataSize svc' = 1048576"
    and "unat (m_frameSize svc') = FS"
    and "length (m_frame svc') = MAX_FRAMES P"
    and "length (m_dataOffset svc') = MAX_FRAMES P"
    and "\<And>i. i < MAX_FRAMES P \<Longrightarrow> unat (m_dataOffset svc' ! i) = FO + i * FS"
    and "\<And>i. i < MAX_FRAMES P \<Longrightarrow> m_frame svc' ! i = m_memory svc + m_dataOffset svc' ! i"
    and "FO + MAX_FRAMES P * FS \<le> unat sz"
proof -
  let ?b = "m_memory svc" and ?h = "sizeof_KVMFRHeader P"
  let ?co = "ALIGN_UP ?h"
  let ?fo = "?co + 1048576"
  let ?fs = "ALIGN_DN ((sz - ?fo) div of_nat (MAX_FRAMES P))"
  have szb: "unat sz < 2 ^ 64" using unsigned_less [of sz] by simp
  have hb: "unat ?h + 127 < 2 ^ 64" using big szb unfolding FO_def CO_def by linarith
  have co: "unat ?co = CO" using unat_ALIGN_UP [OF hb] by (simp add: CO_def)
  have cd: "ALIGN_UP (?b + ?h) = ?b + ?co" by (rule ALIGN_UP_add_aligned [OF al])
  have fo: "unat ?fo = FO"
  proof -
    have "unat ?co + unat (1048576 :: addr) < 2 ^ LENGTH(64)"
      using big szb co by (simp add: FO_def)
    then show ?thesis using unat_add_lem [of ?co 1048576] co by (simp add: FO_def)
  qed
  have foal: "unat ?fo mod 128 = 0" by (simp add: fo FO_def CO_def)
  have fr: "ALIGN_UP (?b + ?co + 1048576) = ?b + ?fo"
    using ALIGN_UP_add_aligned [OF al, of ?fo] ALIGN_UP_aligned [OF foal]
    by (simp add: add.assoc)
  have sub: "unat (sz - ?fo) = unat sz - FO"
    using big fo by (simp add: unat_sub word_le_nat_alt)
  have um: "unat (of_nat (MAX_FRAMES P) :: addr) = MAX_FRAMES P"
    using max by (simp add: unat_of_nat)
  have fs: "unat ?fs = FS"
    by (simp add: unat_ALIGN_DN unat_div sub um FS_def)
  have tot: "FO + MAX_FRAMES P * FS \<le> unat sz"
  proof -
    let ?q = "(unat sz - FO) div MAX_FRAMES P"
    have "FS \<le> ?q" by (simp add: FS_def)
    then have "MAX_FRAMES P * FS \<le> MAX_FRAMES P * ?q" by (rule mult_le_mono2)
    also have "\<dots> \<le> unat sz - FO" by simp
    finally show ?thesis using big by linarith
  qed
  have sv: "svc' = svc\<lparr>m_shmHeader := ?b, m_cursorData := ?b + ?co,
      m_cursorDataSize := 1048576, m_cursorOffset := ?co, m_frameSize := ?fs,
      m_frame := map (\<lambda>i. ?b + ?fo + of_nat i * ?fs) [0 ..< MAX_FRAMES P],
      m_dataOffset := map (\<lambda>i. ?fo + of_nat i * ?fs) [0 ..< MAX_FRAMES P]\<rparr>"
    by (simp add: svc'_def InitPointers_def Let_def cd fr comp_def)
  show "unat (m_cursorOffset svc') = CO" by (simp add: sv co)
  show "m_cursorData svc' = m_memory svc + m_cursorOffset svc'" by (simp add: sv)
  show "m_cursorDataSize svc' = 1048576" by (simp add: sv)
  show "unat (m_frameSize svc') = FS" by (simp add: sv fs)
  show "length (m_frame svc') = MAX_FRAMES P" by (simp add: sv)
  show "length (m_dataOffset svc') = MAX_FRAMES P" by (simp add: sv)
  show "FO + MAX_FRAMES P * FS \<le> unat sz" by (rule tot)
  show "unat (m_dataOffset svc' ! i) = FO + i * FS" if i: "i < MAX_FRAMES P" for i
  proof -
    have ui: "unat (of_nat i :: addr) = i" using i max by (simp add: unat_of_nat)
    have "i * FS \<le> MAX_FRAMES P * FS" using i by (simp add: mult_le_mono1)
    then have b1: "FO + i * FS < 2 ^ 64" using tot szb by linarith
    then have "unat (of_nat i :: addr) * unat ?fs < 2 ^ LENGTH(64)" by (simp add: ui fs)
    then have m: "unat (of_nat i * ?fs) = i * FS"
      using unat_mult_lem [of "of_nat i :: addr" ?fs] by (simp add: ui fs)
    have "unat ?fo + unat (of_nat i * ?fs) < 2 ^ LENGTH(64)" using b1 by (simp add: fo m)
    then have "unat (?fo + of_nat i * ?fs) = FO + i * FS"
      using unat_add_lem [of ?fo "of_nat i * ?fs"] by (simp add: fo m)
    then show ?thesis using i by (simp add: sv)
  qed
  show "m_frame svc' ! i = m_memory svc + m_dataOffset svc' ! i" if i: "i < MAX_FRAMES P" for i
    using i by (simp add: sv add.assoc)
qed


lemma ivl_disjoint_left: "b \<le> c \<Longrightarrow> {a ..< b} \<inter> {c ..< d} = {}" for a b c d :: nat
  by auto

lemma ivl_disjoint_right: "d \<le> a \<Longrightarrow> {a ..< b} \<inter> {c ..< d} = {}" for a b c d :: nat
  by auto

lemma ivl_subset: "b \<le> n \<Longrightarrow> {a ..< b} \<subseteq> {0 ..< n}" for a b n :: nat
  by auto

text \<open>
  Claim C3, as amended. For a base address that is a multiple of 128, at least one
  frame slot, and a total size that reaches the offset of the frames (the header
  size rounded up to 128, plus the 1 MiB cursor region), \<^verbatim>\<open>InitPointers\<close> succeeds
  and places the cursor region and each of the \<open>MAX_FRAMES\<close> slots at offsets that
  are multiples of 128; the slot size is
  \<open>align_down ((total_size - offset_of_frames) / MAX_FRAMES, 128)\<close>; the header, the
  cursor region and the slots are pairwise disjoint and lie within the mapped region.
\<close>

theorem InitPointers_layout:
  fixes P :: params and svc :: Service and sz :: addr
  defines "svc' \<equiv> snd (InitPointers P sz svc)"
  assumes max: "0 < MAX_FRAMES P" "MAX_FRAMES P < 2 ^ 64"
    and al: "unat (m_memory svc) mod 128 = 0"
    and big: "128 * ((unat (sizeof_KVMFRHeader P) + 127) div 128) + 1048576 \<le> unat sz"
  shows "fst (InitPointers P sz svc)
    \<and> unat (m_cursorOffset svc') mod 128 = 0
    \<and> m_cursorData svc' = m_memory svc + m_cursorOffset svc'
    \<and> length (m_dataOffset svc') = MAX_FRAMES P
    \<and> length (m_frame svc') = MAX_FRAMES P
    \<and> unat (m_frameSize svc') =
          128 * (((unat sz - unat (m_dataOffset svc' ! 0)) div MAX_FRAMES P) div 128)
    \<and> (\<forall>i < MAX_FRAMES P.
          unat (m_dataOffset svc' ! i) mod 128 = 0
        \<and> m_frame svc' ! i = m_memory svc + m_dataOffset svc' ! i
        \<and> header_region P \<inter> slot_region svc' i = {}
        \<and> cursor_region svc' \<inter> slot_region svc' i = {}
        \<and> slot_region svc' i \<subseteq> mapped_region sz
        \<and> (\<forall>j < MAX_FRAMES P. i \<noteq> j \<longrightarrow> slot_region svc' i \<inter> slot_region svc' j = {}))
    \<and> header_region P \<inter> cursor_region svc' = {}
    \<and> header_region P \<subseteq> mapped_region sz
    \<and> cursor_region svc' \<subseteq> mapped_region sz"
proof -
  define CO where "CO = 128 * ((unat (sizeof_KVMFRHeader P) + 127) div 128)"
  define FO where "FO = CO + 1048576"
  define FS where "FS = 128 * (((unat sz - FO) div MAX_FRAMES P) div 128)"
  have big': "FO \<le> unat sz" using big by (simp add: FO_def CO_def)
  note o = InitPointers_offsets [OF CO_def FO_def FS_def svc'_def [THEN meta_eq_to_obj_eq] max al big']
  have co: "unat (m_cursorOffset svc') = CO" and cs: "unat (m_cursorDataSize svc') = 1048576"
    and fs: "unat (m_frameSize svc') = FS"
    and off: "\<And>i. i < MAX_FRAMES P \<Longrightarrow> unat (m_dataOffset svc' ! i) = FO + i * FS"
    and tot: "FO + MAX_FRAMES P * FS \<le> unat sz"
    using o by simp_all
  have hco: "unat (sizeof_KVMFRHeader P) \<le> CO" unfolding CO_def by simp
  have step: "FO + i * FS + FS \<le> FO + j * FS" if "i < j" for i j
  proof -
    from that have "Suc i \<le> j" by simp
    then have "Suc i * FS \<le> j * FS" by (rule mult_le_mono1)
    then show ?thesis by simp
  qed
  have top: "FO + i * FS + FS \<le> unat sz" if "i < MAX_FRAMES P" for i
  proof -
    from that have "Suc i \<le> MAX_FRAMES P" by simp
    then have "Suc i * FS \<le> MAX_FRAMES P * FS" by (rule mult_le_mono1)
    then show ?thesis using tot by simp
  qed
  have slots: "unat (m_dataOffset svc' ! i) mod 128 = 0
        \<and> m_frame svc' ! i = m_memory svc + m_dataOffset svc' ! i
        \<and> header_region P \<inter> slot_region svc' i = {}
        \<and> cursor_region svc' \<inter> slot_region svc' i = {}
        \<and> slot_region svc' i \<subseteq> mapped_region sz
        \<and> (\<forall>j < MAX_FRAMES P. i \<noteq> j \<longrightarrow> slot_region svc' i \<inter> slot_region svc' j = {})"
    if i: "i < MAX_FRAMES P" for i
  proof (intro conjI allI impI)
    show "unat (m_dataOffset svc' ! i) mod 128 = 0"
      by (simp add: off [OF i] FO_def CO_def FS_def)
    show "m_frame svc' ! i = m_memory svc + m_dataOffset svc' ! i" using o(8) [OF i] .
    show "header_region P \<inter> slot_region svc' i = {}"
      unfolding header_region_def slot_region_def off [OF i]
      by (rule ivl_disjoint_left) (use hco in \<open>simp add: FO_def\<close>)
    show "cursor_region svc' \<inter> slot_region svc' i = {}"
      unfolding cursor_region_def slot_region_def off [OF i] co cs
      by (rule ivl_disjoint_left) (simp add: FO_def)
    show "slot_region svc' i \<subseteq> mapped_region sz"
      unfolding slot_region_def mapped_region_def off [OF i] fs
      by (rule ivl_subset) (rule top [OF i])
    show "slot_region svc' i \<inter> slot_region svc' j = {}" if j: "j < MAX_FRAMES P" and ne: "i \<noteq> j" for j
    proof (cases "i < j")
      case True
      show ?thesis unfolding slot_region_def off [OF i] off [OF j] fs
        by (rule ivl_disjoint_left) (rule step [OF True])
    next
      case False
      with ne have ji: "j < i" by simp
      show ?thesis unfolding slot_region_def off [OF i] off [OF j] fs
        by (rule ivl_disjoint_right) (rule step [OF ji])
    qed
  qed
  have f0: "unat (m_dataOffset svc' ! 0) = FO" using off [OF max(1)] by simp
  show ?thesis
  proof (intro conjI)
    show "fst (InitPointers P sz svc)" by (simp add: InitPointers_def Let_def)
    show "unat (m_cursorOffset svc') mod 128 = 0" by (simp add: co CO_def)
    show "m_cursorData svc' = m_memory svc + m_cursorOffset svc'" using o(2) .
    show "length (m_dataOffset svc') = MAX_FRAMES P" using o(6) .
    show "length (m_frame svc') = MAX_FRAMES P" using o(5) .
    show "unat (m_frameSize svc') =
          128 * (((unat sz - unat (m_dataOffset svc' ! 0)) div MAX_FRAMES P) div 128)"
      by (simp add: fs f0 FS_def)
    show "\<forall>i < MAX_FRAMES P.
          unat (m_dataOffset svc' ! i) mod 128 = 0
        \<and> m_frame svc' ! i = m_memory svc + m_dataOffset svc' ! i
        \<and> header_region P \<inter> slot_region svc' i = {}
        \<and> cursor_region svc' \<inter> slot_region svc' i = {}
        \<and> slot_region svc' i \<subseteq> mapped_region sz
        \<and> (\<forall>j < MAX_FRAMES P. i \<noteq> j \<longrightarrow> slot_region svc' i \<inter> slot_region svc' j = {})"
      using slots by blast
    show "header_region P \<inter> cursor_region svc' = {}"
      unfolding header_region_def cursor_region_def co
      by (rule ivl_disjoint_left) (rule hco)
    show "header_region P \<subseteq> mapped_region sz"
      unfolding header_region_def mapped_region_def
      by (rule ivl_subset) (use hco big' in \<open>simp add: FO_def\<close>)
    show "cursor_region svc' \<subseteq> mapped_region sz"
      unfolding cursor_region_def mapped_region_def co cs
      by (rule ivl_subset) (use big' in \<open>simp add: FO_def\<close>)
  qed
qed


lemma example_layout_eval:
  "example_layout = new_Service\<lparr>m_memory := 0x10000000, m_shmHeader := 0x10000000,
     m_cursorData := 268435584, m_cursorDataSize := 1048576, m_cursorOffset := 128,
     m_frameSize := 33030016, m_frame := [269484160, 302514176],
     m_dataOffset := [1048704, 34078720]\<rparr>"
  by (simp add: example_layout_def InitPointers_def ALIGN_UP_def ALIGN_DN_def Let_def
      example_params_def new_Service_def upt_rec)

text \<open>
  The theorem at the example device: 64 MiB mapped at \<open>0x10000000\<close>, two slots of
  33030016 bytes.
\<close>

theorem InitPointers_layout_witness:
  "0 < MAX_FRAMES example_params \<and> MAX_FRAMES example_params < 2 ^ 64
   \<and> unat (0x10000000 :: addr) mod 128 = 0
   \<and> 128 * ((unat (sizeof_KVMFRHeader example_params) + 127) div 128) + 1048576
        \<le> unat (0x4000000 :: addr)
   \<and> unat (m_cursorOffset example_layout) mod 128 = 0
   \<and> unat (m_dataOffset example_layout ! 1) mod 128 = 0
   \<and> unat (m_frameSize example_layout) = 33030016
   \<and> header_region example_params \<inter> cursor_region example_layout = {}
   \<and> cursor_region example_layout \<inter> slot_region example_layout 0 = {}
   \<and> slot_region example_layout 0 \<inter> slot_region example_layout 1 = {}
   \<and> slot_region example_layout 1 \<subseteq> mapped_region 0x4000000"
proof -
  let ?svc = "new_Service\<lparr>m_memory := 0x10000000\<rparr>"
  have h1: "0 < MAX_FRAMES example_params" and h2: "MAX_FRAMES example_params < 2 ^ 64"
    by (simp_all add: example_params_def)
  have h3: "unat (m_memory ?svc) mod 128 = 0" by simp
  have h4: "128 * ((unat (sizeof_KVMFRHeader example_params) + 127) div 128) + 1048576
        \<le> unat (0x4000000 :: addr)"
    by (simp add: example_params_def)
  note t = InitPointers_layout [OF h1 h2 h3 h4, folded example_layout_def]
  from t have s: "\<And>i. i < MAX_FRAMES example_params \<Longrightarrow>
      unat (m_dataOffset example_layout ! i) mod 128 = 0
      \<and> cursor_region example_layout \<inter> slot_region example_layout i = {}
      \<and> slot_region example_layout i \<subseteq> mapped_region 0x4000000
      \<and> (\<forall>j < MAX_FRAMES example_params. i \<noteq> j \<longrightarrow>
            slot_region example_layout i \<inter> slot_region example_layout j = {})"
    by blast
  have m0: "(0::nat) < MAX_FRAMES example_params" and m1: "(1::nat) < MAX_FRAMES example_params"
    by (simp_all add: example_params_def)
  have d: "slot_region example_layout 0 \<inter> slot_region example_layout 1 = {}"
    using s [OF m0] m1 by auto
  have fs: "unat (m_frameSize example_layout) = 33030016"
    by (simp add: example_layout_eval)
  show ?thesis using h1 h2 h4 t s [OF m0] s [OF m1] d fs by simp
qed

text \<open>
  Claim C3 as stated fails for a base address that is not a multiple of 128 (the
  code aligns addresses, so the cursor offset is 192 for a base ending in
  \<open>0x40\<close>) and for a size that only holds the header (the cursor region then
  lies beyond the mapping).
\<close>

theorem InitPointers_layout_counterexample:
  "unat (m_cursorOffset (snd (InitPointers example_params 0x4000000
       (new_Service\<lparr>m_memory := 0x10000040\<rparr>)))) mod 128 \<noteq> 0
   \<and> sizeof_KVMFRHeader example_params \<le> 96
   \<and> \<not> cursor_region (snd (InitPointers example_params 96
       (new_Service\<lparr>m_memory := 0x10000000\<rparr>))) \<subseteq> mapped_region 96"
  by (simp add: InitPointers_def ALIGN_UP_def ALIGN_DN_def Let_def example_params_def
      new_Service_def cursor_region_def mapped_region_def)

section \<open>Properties of the capture cycle\<close>

lemma client_frame_fields:
  "frame_dataPos (hdr_frame (client P a shm)) = frame_dataPos (hdr_frame shm)"
  "shm_data (client P a shm) = shm_data shm"
  by (cases a; simp)+

lemma frame_wait_keeps:
  "frame_wait P acts shm = Proceed shm' \<or> frame_wait P acts shm = Blocked shm' \<Longrightarrow>
     frame_dataPos (hdr_frame shm') = frame_dataPos (hdr_frame shm)
     \<and> shm_data shm' = shm_data shm"
proof (induction acts arbitrary: shm)
  case Nil
  then show ?case by (auto split: if_splits)
next
  case (Cons a acts)
  show ?case
  proof (cases "frame_flags (hdr_frame shm) AND KVMFR_FRAME_FLAG_UPDATE P = 0
                \<or> hdr_flags shm AND KVMFR_HEADER_FLAG_RESTART P \<noteq> 0")
    case True
    with Cons.prems show ?thesis by (auto split: if_splits)
  next
    case False
    with Cons.prems have "frame_wait P acts (client P a shm) = Proceed shm'
        \<or> frame_wait P acts (client P a shm) = Blocked shm'" by simp
    from Cons.IH [OF this] show ?thesis by (simp add: client_frame_fields)
  qed
qed

lemma frame_wait_Proceed:
  "frame_wait P acts shm = Proceed shm' \<Longrightarrow>
     frame_flags (hdr_frame shm') AND KVMFR_FRAME_FLAG_UPDATE P = 0
     \<or> hdr_flags shm' AND KVMFR_HEADER_FLAG_RESTART P \<noteq> 0"
  by (induction acts arbitrary: shm) (auto split: if_splits)

lemma capture_loop_state:
  "capture_loop P i as svc shm = (ex, svc2, shm2, rest) \<Longrightarrow>
     hdr_frame shm2 = hdr_frame shm \<and> shm_data shm2 = shm_data shm
     \<and> hdr_cursor shm2 = hdr_cursor shm
     \<and> (if ex = LoopOk False True
         then svc2 = svc\<lparr>m_frameIndex :=
                (if m_frameIndex svc - 1 < 0 then int (MAX_FRAMES P) - 1
                 else m_frameIndex svc - 1)\<rparr>
         else svc2 = svc)
     \<and> ex \<noteq> LoopOk True True"
proof (induction as arbitrary: i shm)
  case Nil
  then show ?case by (auto split: if_splits)
next
  case (Cons a as)
  show ?case
  proof (cases "i < 2")
    case False
    with Cons.prems show ?thesis by auto
  next
    case True
    note i = this
    show ?thesis
    proof (cases "cap_status a")
      case GRAB_STATUS_OK
      with Cons.prems i show ?thesis by auto
    next
      case GRAB_STATUS_TIMEOUT
      show ?thesis
      proof (cases "m_haveFrame svc")
        case True
        with Cons.prems i GRAB_STATUS_TIMEOUT show ?thesis by auto
      next
        case False
        with Cons.prems i GRAB_STATUS_TIMEOUT
        have "capture_loop P i as svc shm = (ex, svc2, shm2, rest)" by simp
        from Cons.IH [OF this] show ?thesis .
      qed
    next
      case GRAB_STATUS_CURSOR
      with Cons.prems i show ?thesis by auto
    next
      case GRAB_STATUS_ERROR
      with Cons.prems i show ?thesis by auto
    next
      case GRAB_STATUS_REINIT
      show ?thesis
      proof (cases "cap_session_returns a \<and> cap_can_initialize a \<and> cap_reinit_ok a
                    \<and> \<not> cap_max_frame a > m_frameSize svc")
        case True
        let ?shm = "shm\<lparr>hdr_flags := (hdr_flags shm OR KVMFR_HEADER_FLAG_PAUSED P)
                       AND NOT (KVMFR_HEADER_FLAG_PAUSED P)\<rparr>"
        from True Cons.prems i GRAB_STATUS_REINIT
        have "capture_loop P i as svc ?shm = (ex, svc2, shm2, rest)" by (simp add: Let_def)
        from Cons.IH [OF this] show ?thesis by simp
      next
        case False
        with Cons.prems i GRAB_STATUS_REINIT show ?thesis
          by (auto simp: Let_def split: if_splits)
      qed
    qed
  qed
qed

lemma stage_cursor_keeps:
  "m_frameIndex (stage_cursor c svc) = m_frameIndex svc"
  "m_dataOffset (stage_cursor c svc) = m_dataOffset svc"
  "m_frame (stage_cursor c svc) = m_frame svc"
  "m_frameSize (stage_cursor c svc) = m_frameSize svc"
  "m_haveFrame (stage_cursor c svc) = m_haveFrame svc"
  by (simp_all add: stage_cursor_def Let_def)

lemma rewind_mod:
  assumes "0 \<le> (k::int)" "k < n"
  shows "(if k - 1 < 0 then n - 1 else k - 1) = (k - 1) mod n"
proof (cases "k = 0")
  case True
  with assms have "(- 1) mod n = n - 1"
    by (metis zmod_minus1)
  with True show ?thesis by simp
next
  case False
  with assms have "0 \<le> k - 1" "k - 1 < n" by simp_all
  then show ?thesis by simp
qed

lemma advance_mod:
  assumes "0 \<le> (k::int)" "k < n"
  shows "(if k + 1 = n then 0 else k + 1) = (k + 1) mod n"
proof (cases "k + 1 = n")
  case True
  then show ?thesis by simp
next
  case False
  with assms have "0 \<le> k + 1" "k + 1 < n" by simp_all
  then show ?thesis by simp
qed

lemma publish_repeat_keeps:
  "outcome_service (publish_repeat P env svc shm) = svc"
  "frame_dataPos (hdr_frame (outcome_shm (publish_repeat P env svc shm))) = frame_dataPos (hdr_frame shm)"
proof -
  obtain shm' where w: "frame_wait P (client_actions env) shm = Proceed shm'
      \<or> frame_wait P (client_actions env) shm = Blocked shm'"
    by (cases "frame_wait P (client_actions env) shm") auto
  from frame_wait_keeps [OF w] have k: "frame_dataPos (hdr_frame shm') = frame_dataPos (hdr_frame shm)"
    by simp
  from w show "outcome_service (publish_repeat P env svc shm) = svc"
    by (auto simp: publish_repeat_def)
  from w k show "frame_dataPos (hdr_frame (outcome_shm (publish_repeat P env svc shm)))
      = frame_dataPos (hdr_frame shm)"
    by (auto simp: publish_repeat_def signal_frame_def end_of_cycle_def)
qed

lemma publish_new_index:
  "m_frameIndex (outcome_service (publish_new P env svc shm)) =
     (if GetFrame_status env = GRAB_STATUS_OK
         \<and> (\<exists>s m. publish_new P env svc shm = Returned True s m)
      then (if m_frameIndex svc + 1 = int (MAX_FRAMES P) then 0 else m_frameIndex svc + 1)
      else m_frameIndex svc)"
  by (cases "frame_wait P (client_actions env)
        (shm\<lparr>shm_data := (shm_data shm)(m_frame svc ! nat (m_frameIndex svc) :=
           fi_pixels (GetFrame_frame env))\<rparr>)")
     (auto simp: publish_new_def Let_def)

lemma publish_new_dataPos:
  "publish_new P env svc shm = Returned True s m \<Longrightarrow> GetFrame_status env = GRAB_STATUS_OK \<Longrightarrow>
     frame_dataPos (hdr_frame m) = m_dataOffset svc ! nat (m_frameIndex svc)
     \<and> m_dataOffset s = m_dataOffset svc"
  by (cases "frame_wait P (client_actions env)
        (shm\<lparr>shm_data := (shm_data shm)(m_frame svc ! nat (m_frameIndex svc) :=
           fi_pixels (GetFrame_frame env))\<rparr>)")
     (auto simp: publish_new_def Let_def write_frame_info_def signal_frame_def end_of_cycle_def)

lemma restart_check_keeps:
  "restart_check P env svc shm = Some shm1 \<Longrightarrow>
     hdr_frame shm1 = hdr_frame shm \<and> shm_data shm1 = shm_data shm
     \<and> hdr_cursor shm1 = hdr_cursor shm"
  by (auto simp: restart_check_def split: if_splits)

lemma Process_not_started:
  "\<not> m_initialized svc \<or> restart_check P env svc shm = None \<Longrightarrow>
     Process P env svc shm = Returned False svc shm"
  by (auto simp: Process_def)

lemma Process_started:
  "m_initialized svc \<Longrightarrow> restart_check P env svc shm = Some shm1 \<Longrightarrow>
     Process P env svc shm = after_capture P env (capture_loop P 0 (captures env) svc shm1)"
  by (simp add: Process_def)

text \<open>The slot index stays within the ring.\<close>

lemma frame_index_in_range:
  assumes inv: "0 \<le> m_frameIndex svc" "m_frameIndex svc < int (MAX_FRAMES P)"
  shows "0 \<le> m_frameIndex (outcome_service (Process P env svc shm))
    \<and> m_frameIndex (outcome_service (Process P env svc shm)) < int (MAX_FRAMES P)"
proof (cases "m_initialized svc \<and> restart_check P env svc shm \<noteq> None")
  case False
  then have "Process P env svc shm = Returned False svc shm"
    by (intro Process_not_started) auto
  with inv show ?thesis by simp
next
  case True
  then obtain shm1 where init: "m_initialized svc"
    and rc: "restart_check P env svc shm = Some shm1" by auto
  obtain ex svc2 shm2 rest where
    cl: "capture_loop P 0 (captures env) svc shm1 = (ex, svc2, shm2, rest)"
    by (cases "capture_loop P 0 (captures env) svc shm1") auto
  have out: "Process P env svc shm = after_capture P env (ex, svc2, shm2, rest)"
    using Process_started [OF init rc] cl by simp
  from capture_loop_state [OF cl] inv
  have s2: "0 \<le> m_frameIndex svc2 \<and> m_frameIndex svc2 < int (MAX_FRAMES P)"
    by (auto split: if_splits)
  show ?thesis
  proof (cases ex)
    case (LoopOk c r)
    let ?svc3 = "stage_cursor (GetCursor env) svc2"
    have k: "m_frameIndex ?svc3 = m_frameIndex svc2" by (simp add: stage_cursor_keeps)
    have n: "0 \<le> m_frameIndex (outcome_service (publish_new P env ?svc3 shm2))
        \<and> m_frameIndex (outcome_service (publish_new P env ?svc3 shm2)) < int (MAX_FRAMES P)"
      unfolding publish_new_index k using s2 by auto
    show ?thesis unfolding out LoopOk using s2 n
      by (simp add: after_capture_def Let_def publish_repeat_keeps k)
  qed (simp_all add: out after_capture_def s2)
qed

text \<open>
  Claim C5. With the slot index within \<open>0 .. MAX_FRAMES - 1\<close>, one call of
  \<^verbatim>\<open>Process\<close> leaves the index at \<open>(index - 1) mod MAX_FRAMES\<close> on a repeated
  cycle (a timeout with a frame published before), at \<open>(index + 1) mod MAX_FRAMES\<close>
  when a new frame is published, and unchanged in every other case, whether the call
  returns or not. On a repeated cycle index 0 goes to \<open>MAX_FRAMES - 1\<close>, the
  descriptor's \<open>dataPos\<close> is not written, and if it advertises the slot before
  the index (as it does after a publish) it advertises the slot of the rewound
  index. A published frame is advertised at the offset of the slot the index had.
\<close>

theorem frame_index_step:
  fixes P :: params and env :: cycle_env and svc :: Service and shm :: Shm
  defines "out \<equiv> Process P env svc shm"
  assumes inv: "0 \<le> m_frameIndex svc" "m_frameIndex svc < int (MAX_FRAMES P)"
  shows "m_frameIndex (outcome_service out) =
      (if repeated_cycle P env svc shm then (m_frameIndex svc - 1) mod int (MAX_FRAMES P)
       else if new_frame_published P env svc shm
         then (m_frameIndex svc + 1) mod int (MAX_FRAMES P)
       else m_frameIndex svc)
    \<and> (repeated_cycle P env svc shm \<longrightarrow>
          (m_frameIndex svc = 0 \<longrightarrow>
             m_frameIndex (outcome_service out) = int (MAX_FRAMES P) - 1)
        \<and> frame_dataPos (hdr_frame (outcome_shm out)) = frame_dataPos (hdr_frame shm)
        \<and> (frame_dataPos (hdr_frame shm) =
               m_dataOffset svc ! nat ((m_frameIndex svc - 1) mod int (MAX_FRAMES P)) \<longrightarrow>
             frame_dataPos (hdr_frame (outcome_shm out)) =
               m_dataOffset (outcome_service out) ! nat (m_frameIndex (outcome_service out))))
    \<and> (new_frame_published P env svc shm \<longrightarrow>
          frame_dataPos (hdr_frame (outcome_shm out)) =
            m_dataOffset svc ! nat (m_frameIndex svc))"
proof (cases "m_initialized svc \<and> restart_check P env svc shm \<noteq> None")
  case False
  then have "out = Returned False svc shm"
    unfolding out_def by (intro Process_not_started) auto
  moreover from False have "\<not> repeated_cycle P env svc shm" "\<not> new_frame_published P env svc shm"
    by (auto simp: repeated_cycle_def new_frame_published_def)
  ultimately show ?thesis by simp
next
  case True
  then obtain shm1 where init: "m_initialized svc"
    and rc: "restart_check P env svc shm = Some shm1" by auto
  obtain ex svc2 shm2 rest where
    cl: "capture_loop P 0 (captures env) svc shm1 = (ex, svc2, shm2, rest)"
    by (cases "capture_loop P 0 (captures env) svc shm1") auto
  have out: "out = after_capture P env (ex, svc2, shm2, rest)"
    unfolding out_def using Process_started [OF init rc] cl by simp
  have rep: "repeated_cycle P env svc shm \<longleftrightarrow> ex = LoopOk False True"
    by (simp add: repeated_cycle_def init rc cl)
  have new: "new_frame_published P env svc shm \<longleftrightarrow>
      GetFrame_status env = GRAB_STATUS_OK \<and> ex = LoopOk False False
      \<and> (\<exists>s m. out = Returned True s m)"
    by (cases out) (auto simp: new_frame_published_def init rc cl out_def)
  note st = capture_loop_state [OF cl]
  have fr: "frame_dataPos (hdr_frame shm2) = frame_dataPos (hdr_frame shm)"
    using st restart_check_keeps [OF rc] by simp
  show ?thesis
  proof (cases ex)
    case LoopSpins
    with st have "svc2 = svc" by simp
    with LoopSpins out rep new show ?thesis by (simp add: after_capture_def)
  next
    case LoopReturnFalse
    with st have "svc2 = svc" by simp
    with LoopReturnFalse out rep new show ?thesis by (simp add: after_capture_def)
  next
    case LoopExceeded
    with st have "svc2 = svc" by simp
    with LoopExceeded out rep new show ?thesis by (simp add: after_capture_def)
  next
    case (LoopOk c r)
    show ?thesis
    proof (cases c)
      case True
      with LoopOk st have "svc2 = svc" by auto
      with LoopOk True out rep new show ?thesis
        by (simp add: after_capture_def stage_cursor_keeps)
    next
      case False
      note c = this
      show ?thesis
      proof (cases r)
        case True
        let ?k = "if m_frameIndex svc - 1 < 0 then int (MAX_FRAMES P) - 1 else m_frameIndex svc - 1"
        from LoopOk c True st have s2: "svc2 = svc\<lparr>m_frameIndex := ?k\<rparr>" by simp
        have k: "?k = (m_frameIndex svc - 1) mod int (MAX_FRAMES P)"
          by (rule rewind_mod [OF inv])
        have o: "out = publish_repeat P env (stage_cursor (GetCursor env) svc2) shm2"
          using out LoopOk c True by (simp add: after_capture_def)
        have i': "m_frameIndex (outcome_service out) = (m_frameIndex svc - 1) mod int (MAX_FRAMES P)"
          unfolding o publish_repeat_keeps(1) stage_cursor_keeps s2 using k by simp
        have d': "frame_dataPos (hdr_frame (outcome_shm out)) = frame_dataPos (hdr_frame shm)"
          unfolding o publish_repeat_keeps(2) by (rule fr)
        have off: "m_dataOffset (outcome_service out) = m_dataOffset svc"
          unfolding o publish_repeat_keeps(1) stage_cursor_keeps s2 by simp
        have z: "m_frameIndex svc = 0 \<Longrightarrow> (m_frameIndex svc - 1) mod int (MAX_FRAMES P)
            = int (MAX_FRAMES P) - 1"
          using k by simp
        from LoopOk c True rep new i' d' off z show ?thesis by simp
      next
        case False
        from LoopOk c False st have s2: "svc2 = svc" by simp
        let ?svc3 = "stage_cursor (GetCursor env) svc"
        have o: "out = publish_new P env ?svc3 shm2"
          using out LoopOk c False s2 by (simp add: after_capture_def)
        have nr: "\<not> repeated_cycle P env svc shm" using rep LoopOk c False by simp
        have adv: "(if m_frameIndex svc + 1 = int (MAX_FRAMES P) then 0 else m_frameIndex svc + 1)
            = (m_frameIndex svc + 1) mod int (MAX_FRAMES P)"
          by (rule advance_mod [OF inv])
        have n': "new_frame_published P env svc shm \<longleftrightarrow>
            GetFrame_status env = GRAB_STATUS_OK
            \<and> (\<exists>s m. publish_new P env ?svc3 shm2 = Returned True s m)"
          using new LoopOk c False o by simp
        have i': "m_frameIndex (outcome_service out) =
            (if new_frame_published P env svc shm
             then (m_frameIndex svc + 1) mod int (MAX_FRAMES P) else m_frameIndex svc)"
          unfolding o publish_new_index [of P env ?svc3 shm2] n' stage_cursor_keeps
          using adv by auto
        have d': "frame_dataPos (hdr_frame (outcome_shm out)) =
            m_dataOffset svc ! nat (m_frameIndex svc)" if "new_frame_published P env svc shm"
        proof -
          from that n' obtain s m where r: "publish_new P env ?svc3 shm2 = Returned True s m"
            and g: "GetFrame_status env = GRAB_STATUS_OK" by auto
          from publish_new_dataPos [OF r g] show ?thesis
            unfolding o r by (simp add: stage_cursor_keeps)
        qed
        from nr i' d' show ?thesis by simp
      qed
    qed
  qed
qed

lemma example_service_eval:
  "example_service = \<lparr>m_initialized = True, m_memory = 268435456, m_capture = True,
     m_shmHeader = 268435456, m_frameIndex = 0, m_cursorDataSize = 1048576,
     m_cursorData = 268435584, m_cursorOffset = 128, m_haveFrame = False,
     m_frameSize = 33030016, m_frame = [269484160, 302514176],
     m_dataOffset = [1048704, 34078720], m_cursorInfo = no_cursor, m_cursorEvent = False\<rparr>"
  by (simp add: example_service_def Initialize_def InitPointers_def ALIGN_UP_def ALIGN_DN_def
      Let_def example_params_def example_init_env_def new_Service_def upt_rec)

lemma example_shm_eval:
  "example_shm = \<lparr>hdr_stamped = True, hdr_flags = 0, hdr_frame = zero_frame,
     hdr_cursor = zero_cursor, shm_data = (\<lambda>a. 0)\<rparr>"
  by (simp add: example_shm_def Initialize_def InitPointers_def ALIGN_UP_def ALIGN_DN_def
      Let_def example_params_def example_init_env_def new_Service_def blank_Shm_def upt_rec)

lemma Initialize_example:
  "Initialize example_params example_init_env new_Service blank_Shm
     = Some (True, example_service, example_shm)"
  by (simp add: example_service_def example_shm_def Initialize_def InitPointers_def
      ALIGN_UP_def ALIGN_DN_def Let_def example_params_def example_init_env_def
      new_Service_def blank_Shm_def upt_rec)

text \<open>
  On an initialised service \<^verbatim>\<open>Initialize\<close> calls \<^verbatim>\<open>DeInitialize\<close>, which waits
  for the cursor thread: neither call returns.
\<close>

lemma DeInitialize_blocks:
  "m_initialized svc \<Longrightarrow> m_capture svc \<Longrightarrow> DeInitialize P svc = None"
  by (simp add: DeInitialize_def)

lemma Initialize_blocks:
  "m_initialized svc \<Longrightarrow> m_capture svc \<Longrightarrow> Initialize P ienv svc shm = None"
  by (simp add: Initialize_def DeInitialize_def)

lemma Initialize_blocks_example:
  "Initialize example_params example_init_env example_service example_shm = None"
  by (rule Initialize_blocks) (simp_all add: example_service_eval)

lemmas cycle_defs = Process_def restart_check_def after_capture_def publish_new_def
  publish_repeat_def stage_cursor_def write_frame_info_def signal_frame_def end_of_cycle_def
  example_env_def grab_def example_params_def no_cursor_def Let_def

lemmas example_state_defs = published_service_def published_shm_def rewound_service_def
  example_service_eval example_shm_eval zero_frame_def

lemma cycle1:
  "Process example_params (example_env [grab GRAB_STATUS_OK] 11 []) example_service example_shm
     = Returned True published_service published_shm"
  by (simp add: cycle_defs example_state_defs)

lemma cycle2:
  "Process example_params (example_env [grab GRAB_STATUS_TIMEOUT] 0 [ClientFrameDone])
      published_service published_shm
     = Returned True rewound_service published_shm"
  by (simp add: cycle_defs example_state_defs)

lemma cycle3:
  "Process example_params (example_env [grab GRAB_STATUS_OK] 22 []) rewound_service published_shm
     = Spinning rewound_service
         (published_shm\<lparr>shm_data := (shm_data published_shm)(269484160 := 22)\<rparr>)"
  by (simp add: cycle_defs example_state_defs)

text \<open>
  The theorem at a repeated cycle from index 0 of two slots: the index becomes 1.
\<close>

theorem frame_index_step_witness:
  "0 \<le> m_frameIndex rewound_service
   \<and> m_frameIndex rewound_service < int (MAX_FRAMES example_params)
   \<and> m_frameIndex rewound_service = 0
   \<and> repeated_cycle example_params (example_env [grab GRAB_STATUS_TIMEOUT] 0 [ClientFrameDone])
        rewound_service published_shm
   \<and> m_frameIndex (outcome_service (Process example_params
        (example_env [grab GRAB_STATUS_TIMEOUT] 0 [ClientFrameDone])
        rewound_service published_shm)) = int (MAX_FRAMES example_params) - 1"
proof -
  let ?env = "example_env [grab GRAB_STATUS_TIMEOUT] 0 [ClientFrameDone]"
  have i1: "0 \<le> m_frameIndex rewound_service"
    and i2: "m_frameIndex rewound_service < int (MAX_FRAMES example_params)"
    and i0: "m_frameIndex rewound_service = 0"
    by (simp_all add: example_state_defs example_params_def)
  have rep: "repeated_cycle example_params ?env rewound_service published_shm"
    by (simp add: repeated_cycle_def cycle_defs example_state_defs)
  from frame_index_step [OF i1 i2, of ?env published_shm] rep i0 i1 i2
  show ?thesis by simp
qed

text \<open>
  Claim C1 at three cycles of the example. The first publishes pixels \<open>11\<close> in
  slot 0; the consumer acknowledges; the second is a repeated frame, which rewinds
  the index to slot 0 and sets UPDATE again; in the third \<^verbatim>\<open>GetFrame\<close> stores the
  pixels \<open>22\<close> at the offset the descriptor advertises while UPDATE is set, and the
  producer then spins in the wait: the consumer has not acted at all.
\<close>

theorem producer_overwrites_advertised_slot:
  "Process example_params (example_env [grab GRAB_STATUS_OK] 11 []) example_service example_shm
     = Returned True published_service published_shm
   \<and> Process example_params (example_env [grab GRAB_STATUS_TIMEOUT] 0 [ClientFrameDone])
       published_service published_shm
     = Returned True rewound_service published_shm
   \<and> frame_flags (hdr_frame published_shm) AND KVMFR_FRAME_FLAG_UPDATE example_params \<noteq> 0
   \<and> m_frame rewound_service ! nat (m_frameIndex rewound_service)
       = m_memory rewound_service + frame_dataPos (hdr_frame published_shm)
   \<and> shm_data published_shm (m_memory rewound_service + frame_dataPos (hdr_frame published_shm))
       = 11
   \<and> Process example_params (example_env [grab GRAB_STATUS_OK] 22 []) rewound_service published_shm
     = Spinning rewound_service
         (published_shm\<lparr>shm_data := (shm_data published_shm)
            (m_memory rewound_service + frame_dataPos (hdr_frame published_shm) := 22)\<rparr>)"
proof -
  have a: "m_memory rewound_service + frame_dataPos (hdr_frame published_shm) = 269484160"
    by (simp add: example_state_defs)
  have b: "m_frame rewound_service ! nat (m_frameIndex rewound_service) = 269484160"
    by (simp add: example_state_defs)
  have c: "frame_flags (hdr_frame published_shm) AND KVMFR_FRAME_FLAG_UPDATE example_params \<noteq> 0"
    by (simp add: example_state_defs example_params_def)
  have d: "shm_data published_shm 269484160 = 11" by (simp add: example_state_defs)
  show ?thesis unfolding a b using cycle1 cycle2 cycle3 c d by simp
qed

lemma capture_loop_used:
  "capture_loop P i as svc shm = (ex, svc', shm', rest) \<Longrightarrow>
     \<exists>used. as = used @ rest \<and> length (filter consumes_budget used) \<le> 1"
proof (induction as arbitrary: i svc shm)
  case Nil
  then show ?case by (simp split: if_splits)
next
  case (Cons a as)
  show ?case
  proof (cases "i < 2")
    case False
    with Cons.prems have "rest = a # as" by simp
    then show ?thesis by simp
  next
    case True
    note i = this
    have single: "\<exists>used. a # as = used @ rest \<and> length (filter consumes_budget used) \<le> 1"
      if "rest = as"
    proof -
      from that have "a # as = [a] @ rest \<and> length (filter consumes_budget [a]) \<le> 1" by simp
      then show ?thesis by blast
    qed
    have longer: "\<exists>used. a # as = used @ rest \<and> length (filter consumes_budget used) \<le> 1"
      if nc: "\<not> consumes_budget a" and r: "capture_loop P i as svc m = (ex, svc', shm', rest)" for m
    proof -
      from Cons.IH [OF r] obtain used where
        u: "as = used @ rest" "length (filter consumes_budget used) \<le> 1" by blast
      with nc have "a # as = (a # used) @ rest \<and> length (filter consumes_budget (a # used)) \<le> 1"
        by simp
      then show ?thesis by blast
    qed
    show ?thesis
    proof (cases "cap_status a")
      case GRAB_STATUS_OK
      with Cons.prems i have "rest = as" by simp
      then show ?thesis by (rule single)
    next
      case GRAB_STATUS_TIMEOUT
      show ?thesis
      proof (cases "m_haveFrame svc")
        case True
        with Cons.prems i GRAB_STATUS_TIMEOUT have "rest = as" by simp
        then show ?thesis by (rule single)
      next
        case False
        with Cons.prems i GRAB_STATUS_TIMEOUT
        have r: "capture_loop P i as svc shm = (ex, svc', shm', rest)" by simp
        have "\<not> consumes_budget a" using GRAB_STATUS_TIMEOUT by (simp add: consumes_budget_def)
        then show ?thesis using r by (rule longer)
      qed
    next
      case GRAB_STATUS_CURSOR
      with Cons.prems i have "rest = as" by simp
      then show ?thesis by (rule single)
    next
      case GRAB_STATUS_ERROR
      with Cons.prems i have "rest = as" by simp
      then show ?thesis by (rule single)
    next
      case GRAB_STATUS_REINIT
      have nc: "\<not> consumes_budget a" using GRAB_STATUS_REINIT by (simp add: consumes_budget_def)
      show ?thesis
      proof (cases "cap_session_returns a \<and> cap_can_initialize a \<and> cap_reinit_ok a
                    \<and> \<not> cap_max_frame a > m_frameSize svc")
        case True
        with Cons.prems i GRAB_STATUS_REINIT obtain shm2 where
          "capture_loop P i as svc shm2 = (ex, svc', shm', rest)" by (simp add: Let_def)
        with nc show ?thesis by (rule longer)
      next
        case False
        with Cons.prems i GRAB_STATUS_REINIT have "rest = as"
          by (auto simp: Let_def split: if_splits)
        then show ?thesis by (rule single)
      qed
    qed
  qed
qed

lemma capture_loop_not_exceeded:
  "i < 2 \<Longrightarrow> fst (capture_loop P i as svc shm) \<noteq> LoopExceeded"
  by (induction as arbitrary: shm) (auto simp: Let_def split: GrabStatus.splits)

lemma capture_loop_exceeded:
  "\<not> i < 2 \<Longrightarrow> capture_loop P i as svc shm = (LoopExceeded, svc, shm, as)"
  by (cases as) simp_all

text \<open>
  Claim C4. Of the answers of \<^verbatim>\<open>Capture()\<close> that one run of the capture loop uses,
  at most 2 are \<^verbatim>\<open>GRAB_STATUS_OK\<close>, \<^verbatim>\<open>GRAB_STATUS_CURSOR\<close> or
  \<^verbatim>\<open>GRAB_STATUS_ERROR\<close>. A timeout with no frame published before and a
  reinitialisation that succeeds leave the loop counter as it was and the loop goes
  on with the next answer; an answer that consumes budget ends the loop there. With
  the counter at 2 or more the loop is left with \<^verbatim>\<open>ok\<close> false and the cycle
  returns \<^verbatim>\<open>false\<close>.
\<close>

theorem retry_budget:
  "(capture_loop P i as svc shm = (ex, svc', shm', rest) \<longrightarrow>
      (\<exists>used. as = used @ rest \<and> length (filter consumes_budget used) \<le> 2))
   \<and> (i < 2 \<and> cap_status a = GRAB_STATUS_TIMEOUT \<and> \<not> m_haveFrame svc \<longrightarrow>
        \<not> consumes_budget a
        \<and> capture_loop P i (a # as) svc shm = capture_loop P i as svc shm)
   \<and> (i < 2 \<and> cap_status a = GRAB_STATUS_REINIT \<and> cap_session_returns a
        \<and> cap_can_initialize a \<and> cap_reinit_ok a \<and> cap_max_frame a \<le> m_frameSize svc \<longrightarrow>
        \<not> consumes_budget a
        \<and> capture_loop P i (a # as) svc shm =
            capture_loop P i as svc
              (shm\<lparr>hdr_flags := (hdr_flags shm OR KVMFR_HEADER_FLAG_PAUSED P)
                                  AND NOT (KVMFR_HEADER_FLAG_PAUSED P)\<rparr>))
   \<and> (i < 2 \<and> consumes_budget a \<longrightarrow>
        (\<exists>ex1 svc1 shm1. capture_loop P i (a # as) svc shm = (ex1, svc1, shm1, as)
           \<and> ex1 \<noteq> LoopSpins \<and> ex1 \<noteq> LoopExceeded))
   \<and> (\<not> i < 2 \<longrightarrow>
        capture_loop P i as svc shm = (LoopExceeded, svc, shm, as)
        \<and> after_capture P env (capture_loop P i as svc shm) = Returned False svc shm)"
proof (intro conjI impI)
  assume "capture_loop P i as svc shm = (ex, svc', shm', rest)"
  from capture_loop_used [OF this] obtain used where
    "as = used @ rest" "length (filter consumes_budget used) \<le> 1" by blast
  then have "as = used @ rest \<and> length (filter consumes_budget used) \<le> 2" by simp
  then show "\<exists>used. as = used @ rest \<and> length (filter consumes_budget used) \<le> 2" by blast
next
  assume "i < 2 \<and> cap_status a = GRAB_STATUS_TIMEOUT \<and> \<not> m_haveFrame svc"
  then show "\<not> consumes_budget a" "capture_loop P i (a # as) svc shm = capture_loop P i as svc shm"
    by (simp_all add: consumes_budget_def)
next
  assume h: "i < 2 \<and> cap_status a = GRAB_STATUS_REINIT \<and> cap_session_returns a
        \<and> cap_can_initialize a \<and> cap_reinit_ok a \<and> cap_max_frame a \<le> m_frameSize svc"
  then show "\<not> consumes_budget a" by (simp add: consumes_budget_def)
  from h have "cap_max_frame a \<le> m_frameSize svc" by blast
  then have "\<not> m_frameSize svc < cap_max_frame a" by (rule leD)
  with h show "capture_loop P i (a # as) svc shm =
      capture_loop P i as svc
        (shm\<lparr>hdr_flags := (hdr_flags shm OR KVMFR_HEADER_FLAG_PAUSED P)
                            AND NOT (KVMFR_HEADER_FLAG_PAUSED P)\<rparr>)"
    by (simp add: Let_def)
next
  assume "i < 2 \<and> consumes_budget a"
  then show "\<exists>ex1 svc1 shm1. capture_loop P i (a # as) svc shm = (ex1, svc1, shm1, as)
           \<and> ex1 \<noteq> LoopSpins \<and> ex1 \<noteq> LoopExceeded"
    by (auto simp: consumes_budget_def)
next
  assume n: "\<not> i < 2"
  show e: "capture_loop P i as svc shm = (LoopExceeded, svc, shm, as)"
    by (rule capture_loop_exceeded [OF n])
  show "after_capture P env (capture_loop P i as svc shm) = Returned False svc shm"
    unfolding e by (simp add: after_capture_def)
qed

text \<open>
  The theorem at a timeout, a reinitialisation and an error in a row from a service
  with no frame yet, and at a loop entered with the counter at 2.
\<close>

theorem retry_budget_witness:
  "capture_loop example_params 0
       [grab GRAB_STATUS_TIMEOUT, grab GRAB_STATUS_REINIT, grab GRAB_STATUS_ERROR,
        grab GRAB_STATUS_OK] example_service example_shm
     = (LoopReturnFalse, example_service, example_shm, [grab GRAB_STATUS_OK])
   \<and> (\<exists>used. [grab GRAB_STATUS_TIMEOUT, grab GRAB_STATUS_REINIT, grab GRAB_STATUS_ERROR,
                grab GRAB_STATUS_OK] = used @ [grab GRAB_STATUS_OK]
           \<and> length (filter consumes_budget used) \<le> 2)
   \<and> \<not> (2::int) < 2
   \<and> after_capture example_params (example_env [] 0 [])
        (capture_loop example_params 2 [grab GRAB_STATUS_OK] example_service example_shm)
       = Returned False example_service example_shm"
proof -
  let ?as = "[grab GRAB_STATUS_TIMEOUT, grab GRAB_STATUS_REINIT, grab GRAB_STATUS_ERROR,
        grab GRAB_STATUS_OK]"
  have r: "capture_loop example_params 0 ?as example_service example_shm
     = (LoopReturnFalse, example_service, example_shm, [grab GRAB_STATUS_OK])"
    by (simp add: grab_def example_params_def example_service_eval example_shm_eval Let_def)
  note t = retry_budget [of example_params 0 ?as example_service example_shm LoopReturnFalse
      example_service example_shm "[grab GRAB_STATUS_OK]"]
  note u = retry_budget [of example_params 2 "[grab GRAB_STATUS_OK]" example_service example_shm
      _ _ _ _ _ "example_env [] 0 []"]
  from t r u show ?thesis by simp
qed

lemma InitPointers_frameSize_memory:
  "m_memory s = m_memory s' \<Longrightarrow>
     m_frameSize (snd (InitPointers P sz s)) = m_frameSize (snd (InitPointers P sz s'))"
  by (simp add: InitPointers_def Let_def)

lemma Process_keeps_geometry:
  "m_frameSize (outcome_service (Process P env svc shm)) = m_frameSize svc"
proof (cases "m_initialized svc \<and> restart_check P env svc shm \<noteq> None")
  case False
  then have "Process P env svc shm = Returned False svc shm"
    by (intro Process_not_started) auto
  then show ?thesis by simp
next
  case True
  then obtain shm1 where init: "m_initialized svc"
    and rc: "restart_check P env svc shm = Some shm1" by auto
  obtain ex svc2 shm2 rest where
    cl: "capture_loop P 0 (captures env) svc shm1 = (ex, svc2, shm2, rest)"
    by (cases "capture_loop P 0 (captures env) svc shm1") auto
  have out: "Process P env svc shm = after_capture P env (ex, svc2, shm2, rest)"
    using Process_started [OF init rc] cl by simp
  from capture_loop_state [OF cl] have s2: "m_frameSize svc2 = m_frameSize svc"
    by (auto split: if_splits)
  show ?thesis
  proof (cases ex)
    case (LoopOk c r)
    let ?svc3 = "stage_cursor (GetCursor env) svc2"
    have k: "m_frameSize ?svc3 = m_frameSize svc" by (simp add: stage_cursor_keeps s2)
    have n: "m_frameSize (outcome_service (publish_new P env ?svc3 shm2)) = m_frameSize ?svc3"
      by (cases "frame_wait P (client_actions env)
            (shm2\<lparr>shm_data := (shm_data shm2)(m_frame ?svc3 ! nat (m_frameIndex ?svc3) :=
               fi_pixels (GetFrame_frame env))\<rparr>)")
         (auto simp: publish_new_def Let_def)
    show ?thesis unfolding out LoopOk
      by (simp add: after_capture_def Let_def publish_repeat_keeps n k)
  qed (simp_all add: out after_capture_def s2)
qed

lemma deinitialize_return_false_cases:
  "deinitialize_return_false P svc shm = None
   \<or> (\<exists>svc1. deinitialize_return_false P svc shm = Some (False, svc1, shm))"
  by (simp add: deinitialize_return_false_def split: option.splits)

lemma deinitialize_return_false_fresh:
  "\<not> m_initialized svc \<Longrightarrow>
     \<exists>svc1. deinitialize_return_false P svc shm = Some (False, svc1, shm)"
  by (simp add: deinitialize_return_false_def DeInitialize_def)

lemma DeInitialize_Some:
  "DeInitialize P svc = Some svc1 \<Longrightarrow> \<not> m_initialized svc1 \<and> \<not> m_capture svc1"
  by (auto simp: DeInitialize_def split: if_splits)

lemma Initialize_checks_frame_size:
  assumes big: "capture_GetMaxFrameSize ienv >
        m_frameSize (snd (InitPointers P (ivshmem_GetSize ienv)
                      (svc\<lparr>m_memory := ivshmem_GetMemory ienv\<rparr>)))"
  shows "Initialize P ienv svc shm \<noteq> Some (True, svc', shm')"
proof (cases "if m_initialized svc then DeInitialize P svc else Some svc")
  case None
  then show ?thesis by (simp add: Initialize_def)
next
  case (Some svc1)
  let ?svc2 = "svc1\<lparr>m_capture := True\<rparr>"
  let ?svc3 = "?svc2\<lparr>m_memory := ivshmem_GetMemory ienv\<rparr>"
  have "m_frameSize (snd (InitPointers P (ivshmem_GetSize ienv) ?svc3)) =
      m_frameSize (snd (InitPointers P (ivshmem_GetSize ienv)
                      (svc\<lparr>m_memory := ivshmem_GetMemory ienv\<rparr>)))"
    by (rule InitPointers_frameSize_memory) simp
  with big have b: "capture_GetMaxFrameSize ienv >
      m_frameSize (snd (InitPointers P (ivshmem_GetSize ienv) ?svc3))" by simp
  have f: "deinitialize_return_false P x shm \<noteq> Some (True, svc', shm')" for x
    using deinitialize_return_false_cases [of P x shm] by auto
  show ?thesis using Some b f
    by (simp add: Initialize_def Let_def split_beta)
qed

lemma Initialize_fresh_returns:
  assumes fresh: "\<not> m_initialized svc"
  shows "\<exists>ok svc1 shm1. Initialize P ienv svc shm = Some (ok, svc1, shm1)
     \<and> (\<not> ok \<longrightarrow> shm1 = shm)"
proof -
  have f: "\<exists>svc1. deinitialize_return_false P x shm = Some (False, svc1, shm)"
    if "\<not> m_initialized x" for x
    using that by (rule deinitialize_return_false_fresh)
  let ?svc2 = "svc\<lparr>m_capture := True\<rparr>"
  let ?svc3 = "?svc2\<lparr>m_memory := ivshmem_GetMemory ienv\<rparr>"
  let ?svc4 = "snd (InitPointers P (ivshmem_GetSize ienv) ?svc3)"
  have i2: "\<not> m_initialized ?svc2" and i3: "\<not> m_initialized ?svc3"
    using fresh by simp_all
  have i4: "\<not> m_initialized ?svc4" using fresh by (simp add: InitPointers_def Let_def)
  from f [OF i2] f [OF i3] f [OF i4] fresh show ?thesis
    by (auto simp: Initialize_def Let_def split_beta)
qed

text \<open>
  Claim C7. When the capture device's maximum frame size exceeds the slot size
  that \<^verbatim>\<open>InitPointers\<close> computes for the mapping, \<^verbatim>\<open>Initialize\<close> never returns
  \<^verbatim>\<open>true\<close>, and called on a service that is not initialised (a call on an
  initialised one does not return at all) it returns \<^verbatim>\<open>false\<close>. When RESTART
  is set and the device reinitialises, \<^verbatim>\<open>Process\<close> returns \<^verbatim>\<open>false\<close> if the new
  maximum exceeds \<^verbatim>\<open>m_frameSize\<close>; so does every pass of the capture loop that
  handles \<^verbatim>\<open>GRAB_STATUS_REINIT\<close>. \<^verbatim>\<open>Process\<close> never changes \<^verbatim>\<open>m_frameSize\<close>.
\<close>

theorem max_frame_size_validated:
  "(capture_GetMaxFrameSize ienv >
        m_frameSize (snd (InitPointers P (ivshmem_GetSize ienv)
                      (svc\<lparr>m_memory := ivshmem_GetMemory ienv\<rparr>))) \<longrightarrow>
      (\<forall>svc' shm'. Initialize P ienv svc shm \<noteq> Some (True, svc', shm'))
      \<and> (\<not> m_initialized svc \<longrightarrow>
           (\<exists>svc'. Initialize P ienv svc shm = Some (False, svc', shm))))
   \<and> (m_initialized svc \<and> hdr_flags shm AND KVMFR_HEADER_FLAG_RESTART P \<noteq> 0
        \<and> restart_ReInitialize env \<and> restart_GetMaxFrameSize env > m_frameSize svc \<longrightarrow>
      Process P env svc shm = Returned False svc shm)
   \<and> (i < 2 \<and> cap_status a = GRAB_STATUS_REINIT \<and> cap_session_returns a
        \<and> cap_can_initialize a \<and> cap_reinit_ok a \<and> cap_max_frame a > m_frameSize svc \<longrightarrow>
      after_capture P env (capture_loop P i (a # as) svc shm) =
        Returned False svc (shm\<lparr>hdr_flags := hdr_flags shm OR KVMFR_HEADER_FLAG_PAUSED P\<rparr>))
   \<and> m_frameSize (outcome_service (Process P env svc shm)) = m_frameSize svc"
proof (intro conjI impI allI)
  fix svc' shm'
  assume big: "capture_GetMaxFrameSize ienv >
        m_frameSize (snd (InitPointers P (ivshmem_GetSize ienv)
                      (svc\<lparr>m_memory := ivshmem_GetMemory ienv\<rparr>)))"
  show "Initialize P ienv svc shm \<noteq> Some (True, svc', shm')"
    by (rule Initialize_checks_frame_size [OF big])
next
  assume big: "capture_GetMaxFrameSize ienv >
        m_frameSize (snd (InitPointers P (ivshmem_GetSize ienv)
                      (svc\<lparr>m_memory := ivshmem_GetMemory ienv\<rparr>)))"
    and fresh: "\<not> m_initialized svc"
  from Initialize_fresh_returns [OF fresh] obtain ok svc1 shm1 where
    r: "Initialize P ienv svc shm = Some (ok, svc1, shm1)" and u: "\<not> ok \<longrightarrow> shm1 = shm"
    by blast
  from Initialize_checks_frame_size [OF big] r have "\<not> ok" by (cases ok) auto
  with r u show "\<exists>svc'. Initialize P ienv svc shm = Some (False, svc', shm)" by auto
next
  assume "m_initialized svc \<and> hdr_flags shm AND KVMFR_HEADER_FLAG_RESTART P \<noteq> 0
        \<and> restart_ReInitialize env \<and> restart_GetMaxFrameSize env > m_frameSize svc"
  then show "Process P env svc shm = Returned False svc shm"
    by (simp add: Process_def restart_check_def)
next
  assume "i < 2 \<and> cap_status a = GRAB_STATUS_REINIT \<and> cap_session_returns a
        \<and> cap_can_initialize a \<and> cap_reinit_ok a \<and> cap_max_frame a > m_frameSize svc"
  then show "after_capture P env (capture_loop P i (a # as) svc shm) =
        Returned False svc (shm\<lparr>hdr_flags := hdr_flags shm OR KVMFR_HEADER_FLAG_PAUSED P\<rparr>)"
    by (simp add: after_capture_def Let_def)
next
  show "m_frameSize (outcome_service (Process P env svc shm)) = m_frameSize svc"
    by (rule Process_keeps_geometry)
qed

text \<open>
  The theorem at a device that reports 64 MiB frames for slots of 33030016 bytes.
\<close>

theorem max_frame_size_validated_witness:
  "\<not> m_initialized new_Service
   \<and> (\<exists>svc'. Initialize example_params
          (example_init_env\<lparr>capture_GetMaxFrameSize := 0x4000000\<rparr>) new_Service blank_Shm
        = Some (False, svc', blank_Shm))
   \<and> Process example_params
        ((example_env [grab GRAB_STATUS_OK] 11 [])\<lparr>restart_GetMaxFrameSize := 0x4000000\<rparr>)
        example_service (example_shm\<lparr>hdr_flags := 1\<rparr>)
       = Returned False example_service (example_shm\<lparr>hdr_flags := 1\<rparr>)
   \<and> after_capture example_params (example_env [] 0 [])
        (capture_loop example_params 0 [(grab GRAB_STATUS_REINIT)\<lparr>cap_max_frame := 0x4000000\<rparr>]
           example_service example_shm)
       = Returned False example_service (example_shm\<lparr>hdr_flags := 2\<rparr>)"
proof -
  note t = max_frame_size_validated [where P = example_params and svc = new_Service
      and shm = blank_Shm
      and ienv = "example_init_env\<lparr>capture_GetMaxFrameSize := 0x4000000\<rparr>"]
  note u = max_frame_size_validated [where P = example_params and svc = example_service
      and shm = "example_shm\<lparr>hdr_flags := 1\<rparr>"
      and env = "(example_env [grab GRAB_STATUS_OK] 11 [])\<lparr>restart_GetMaxFrameSize := 0x4000000\<rparr>"]
  note v = max_frame_size_validated [where P = example_params and svc = example_service
      and shm = example_shm and env = "example_env [] 0 []" and i = 0
      and a = "(grab GRAB_STATUS_REINIT)\<lparr>cap_max_frame := 0x4000000\<rparr>" and as = "[]"]
  have a: "capture_GetMaxFrameSize (example_init_env\<lparr>capture_GetMaxFrameSize := 0x4000000\<rparr>) >
      m_frameSize (snd (InitPointers example_params
        (ivshmem_GetSize (example_init_env\<lparr>capture_GetMaxFrameSize := 0x4000000\<rparr>))
        (new_Service\<lparr>m_memory := ivshmem_GetMemory
           (example_init_env\<lparr>capture_GetMaxFrameSize := 0x4000000\<rparr>)\<rparr>)))"
    by (simp add: example_init_env_def InitPointers_def ALIGN_UP_def ALIGN_DN_def Let_def
        example_params_def new_Service_def)
  have b: "m_initialized example_service
      \<and> hdr_flags (example_shm\<lparr>hdr_flags := 1\<rparr>) AND KVMFR_HEADER_FLAG_RESTART example_params \<noteq> 0
      \<and> restart_ReInitialize
          ((example_env [grab GRAB_STATUS_OK] 11 [])\<lparr>restart_GetMaxFrameSize := 0x4000000\<rparr>)
      \<and> restart_GetMaxFrameSize
          ((example_env [grab GRAB_STATUS_OK] 11 [])\<lparr>restart_GetMaxFrameSize := 0x4000000\<rparr>)
          > m_frameSize example_service"
    by (simp add: example_service_eval example_params_def example_env_def)
  have c: "(0::int) < 2
      \<and> cap_status ((grab GRAB_STATUS_REINIT)\<lparr>cap_max_frame := 0x4000000\<rparr>) = GRAB_STATUS_REINIT
      \<and> cap_session_returns ((grab GRAB_STATUS_REINIT)\<lparr>cap_max_frame := 0x4000000\<rparr>)
      \<and> cap_can_initialize ((grab GRAB_STATUS_REINIT)\<lparr>cap_max_frame := 0x4000000\<rparr>)
      \<and> cap_reinit_ok ((grab GRAB_STATUS_REINIT)\<lparr>cap_max_frame := 0x4000000\<rparr>)
      \<and> cap_max_frame ((grab GRAB_STATUS_REINIT)\<lparr>cap_max_frame := 0x4000000\<rparr>)
          > m_frameSize example_service"
    by (simp add: grab_def example_service_eval)
  have p: "hdr_flags example_shm OR KVMFR_HEADER_FLAG_PAUSED example_params = 2"
    by (simp add: example_shm_eval example_params_def)
  have n: "\<not> m_initialized new_Service" by (simp add: new_Service_def)
  from t a n have 1: "\<exists>svc'. Initialize example_params
          (example_init_env\<lparr>capture_GetMaxFrameSize := 0x4000000\<rparr>) new_Service blank_Shm
        = Some (False, svc', blank_Shm)"
    by blast
  from u b have 2: "Process example_params
        ((example_env [grab GRAB_STATUS_OK] 11 [])\<lparr>restart_GetMaxFrameSize := 0x4000000\<rparr>)
        example_service (example_shm\<lparr>hdr_flags := 1\<rparr>)
       = Returned False example_service (example_shm\<lparr>hdr_flags := 1\<rparr>)"
    by blast
  from v c have 3: "after_capture example_params (example_env [] 0 [])
        (capture_loop example_params 0 [(grab GRAB_STATUS_REINIT)\<lparr>cap_max_frame := 0x4000000\<rparr>]
           example_service example_shm)
       = Returned False example_service
           (example_shm\<lparr>hdr_flags := hdr_flags example_shm OR KVMFR_HEADER_FLAG_PAUSED example_params\<rparr>)"
    by blast
  from n 1 2 3 show ?thesis unfolding p by simp
qed


lemma restart_bit_raised:
  "KVMFR_HEADER_FLAG_RESTART P \<noteq> 0 \<Longrightarrow>
     (x OR KVMFR_HEADER_FLAG_RESTART P) AND KVMFR_HEADER_FLAG_RESTART P \<noteq> 0"
  by (simp add: bit.conj_disj_distrib2)

lemma update_bit_raised:
  "x AND u \<noteq> 0 \<Longrightarrow> (x OR u) AND u \<noteq> (0 :: u8)"
  by (auto simp: bit.conj_disj_distrib2)

lemma idle_actions_keep:
  "set pre \<subseteq> {ClientIdle, ClientCursorDone} \<Longrightarrow>
     hdr_frame (foldl (\<lambda>m a. client P a m) shm pre) = hdr_frame shm
     \<and> hdr_flags (foldl (\<lambda>m a. client P a m) shm pre) = hdr_flags shm
     \<and> shm_data (foldl (\<lambda>m a. client P a m) shm pre) = shm_data shm"
proof (induction pre arbitrary: shm)
  case Nil
  then show ?case by simp
next
  case (Cons a pre)
  then have a: "a = ClientIdle \<or> a = ClientCursorDone" and p: "set pre \<subseteq> {ClientIdle, ClientCursorDone}"
    by auto
  from Cons.IH [OF p, of "client P a shm"] a show ?case by auto
qed

lemma frame_wait_idle:
  assumes "frame_flags (hdr_frame shm) AND KVMFR_FRAME_FLAG_UPDATE P \<noteq> 0"
    and "hdr_flags shm AND KVMFR_HEADER_FLAG_RESTART P = 0"
    and "set pre \<subseteq> {ClientIdle, ClientCursorDone}"
  shows "frame_wait P (pre @ acts) shm = frame_wait P acts (foldl (\<lambda>m a. client P a m) shm pre)"
  using assms
proof (induction pre arbitrary: shm)
  case Nil
  then show ?case by simp
next
  case (Cons a pre)
  then have a: "a = ClientIdle \<or> a = ClientCursorDone" and p: "set pre \<subseteq> {ClientIdle, ClientCursorDone}"
    by auto
  from a Cons.prems(1,2)
  have b: "frame_flags (hdr_frame (client P a shm)) AND KVMFR_FRAME_FLAG_UPDATE P \<noteq> 0"
    and q: "hdr_flags (client P a shm) AND KVMFR_HEADER_FLAG_RESTART P = 0" by auto
  from Cons.IH [OF b q p] Cons.prems(1,2) show ?case by simp
qed

lemma frame_wait_stays_blocked:
  assumes b: "frame_flags (hdr_frame shm) AND KVMFR_FRAME_FLAG_UPDATE P \<noteq> 0"
    and q: "hdr_flags shm AND KVMFR_HEADER_FLAG_RESTART P = 0"
    and p: "set pre \<subseteq> {ClientIdle, ClientCursorDone}"
  shows "frame_wait P pre shm = Blocked (foldl (\<lambda>m a. client P a m) shm pre)"
proof -
  note k = idle_actions_keep [OF p, of P shm]
  have "frame_wait P (pre @ []) shm = frame_wait P [] (foldl (\<lambda>m a. client P a m) shm pre)"
    by (rule frame_wait_idle [OF b q p])
  then show ?thesis using k b q by simp
qed

lemma frame_wait_restart:
  assumes b: "frame_flags (hdr_frame shm) AND KVMFR_FRAME_FLAG_UPDATE P \<noteq> 0"
    and q: "hdr_flags shm AND KVMFR_HEADER_FLAG_RESTART P = 0"
    and p: "set pre \<subseteq> {ClientIdle, ClientCursorDone}"
    and bit: "KVMFR_HEADER_FLAG_RESTART P \<noteq> 0"
  shows "frame_wait P (pre @ ClientRestart # post) shm =
     Proceed (client P ClientRestart (foldl (\<lambda>m a. client P a m) shm pre))"
proof -
  let ?m = "foldl (\<lambda>m a. client P a m) shm pre"
  note k = idle_actions_keep [OF p, of P shm]
  have r: "hdr_flags (client P ClientRestart ?m) AND KVMFR_HEADER_FLAG_RESTART P \<noteq> 0"
    using restart_bit_raised [OF bit] by simp
  have u: "frame_flags (hdr_frame (client P ClientRestart ?m)) AND KVMFR_FRAME_FLAG_UPDATE P \<noteq> 0"
    using k b by simp
  have "frame_wait P (ClientRestart # post) ?m = frame_wait P post (client P ClientRestart ?m)"
    using k b q by simp
  also have "\<dots> = Proceed (client P ClientRestart ?m)"
    using r u by (cases post) simp_all
  finally show ?thesis using frame_wait_idle [OF b q p, of "ClientRestart # post"] by simp
qed

text \<open>
  Claim C2, as amended. Take a cycle whose capture loop ends with a frame to
  publish or to repeat and which reaches the wait with UPDATE set and RESTART
  clear. While the consumer only idles or acknowledges the cursor, the call does
  not return. When the consumer then raises RESTART, after any number of such
  polls, the wait ends and the producer completes the publish attempt:
  \<^verbatim>\<open>Process\<close> returns \<^verbatim>\<open>true\<close>, UPDATE has been or-ed into the flag byte, where
  it is still set, and on the new-frame path every payload field of the frame
  descriptor holds the new frame's value (on the repeated-frame path the payload
  fields are as they were).
\<close>

theorem restart_unblocks_and_publishes:
  assumes init: "m_initialized svc"
    and rc: "restart_check P env svc shm = Some shm1"
    and cl: "capture_loop P 0 (captures env) svc shm1 = (LoopOk False repeat, svc2, shm2, rest)"
    and gf: "repeat \<or> GetFrame_status env = GRAB_STATUS_OK"
    and blocked: "frame_flags (hdr_frame shm2) AND KVMFR_FRAME_FLAG_UPDATE P \<noteq> 0"
    and quiet: "hdr_flags shm2 AND KVMFR_HEADER_FLAG_RESTART P = 0"
    and bit: "KVMFR_HEADER_FLAG_RESTART P \<noteq> 0"
    and idle: "set pre \<subseteq> {ClientIdle, ClientCursorDone}"
  shows "(client_actions env = pre \<longrightarrow>
            (\<exists>svc' shm'. Process P env svc shm = Spinning svc' shm'))
    \<and> (client_actions env = pre @ ClientRestart # post \<longrightarrow>
          (\<exists>svc' shm'. Process P env svc shm = Returned True svc' shm'
             \<and> frame_flags (hdr_frame shm') =
                 frame_flags (hdr_frame shm2) OR KVMFR_FRAME_FLAG_UPDATE P
             \<and> frame_flags (hdr_frame shm') AND KVMFR_FRAME_FLAG_UPDATE P \<noteq> 0
             \<and> (if repeat
                 then frame_type (hdr_frame shm') = frame_type (hdr_frame shm2)
                    \<and> frame_width (hdr_frame shm') = frame_width (hdr_frame shm2)
                    \<and> frame_height (hdr_frame shm') = frame_height (hdr_frame shm2)
                    \<and> frame_stride (hdr_frame shm') = frame_stride (hdr_frame shm2)
                    \<and> frame_pitch (hdr_frame shm') = frame_pitch (hdr_frame shm2)
                    \<and> frame_dataPos (hdr_frame shm') = frame_dataPos (hdr_frame shm2)
                 else frame_type (hdr_frame shm') = GetFrameType env
                    \<and> frame_width (hdr_frame shm') = fi_width (GetFrame_frame env)
                    \<and> frame_height (hdr_frame shm') = fi_height (GetFrame_frame env)
                    \<and> frame_stride (hdr_frame shm') = fi_stride (GetFrame_frame env)
                    \<and> frame_pitch (hdr_frame shm') = fi_pitch (GetFrame_frame env)
                    \<and> frame_dataPos (hdr_frame shm') =
                        m_dataOffset svc2 ! nat (m_frameIndex svc2))))"
proof -
  let ?svc3 = "stage_cursor (GetCursor env) svc2"
  have out: "Process P env svc shm =
      (if repeat then publish_repeat P env ?svc3 shm2 else publish_new P env ?svc3 shm2)"
    using Process_started [OF init rc] cl by (simp add: after_capture_def)
  let ?w = "if repeat then shm2
      else shm2\<lparr>shm_data := (shm_data shm2)(m_frame ?svc3 ! nat (m_frameIndex ?svc3) :=
        fi_pixels (GetFrame_frame env))\<rparr>"
  have b: "frame_flags (hdr_frame ?w) AND KVMFR_FRAME_FLAG_UPDATE P \<noteq> 0"
    and q: "hdr_flags ?w AND KVMFR_HEADER_FLAG_RESTART P = 0"
    using blocked quiet by simp_all
  let ?m = "foldl (\<lambda>m a. client P a m) ?w pre"
  note k = idle_actions_keep [OF idle, of P ?w]
  have w0: "frame_wait P pre ?w = Blocked ?m"
    by (rule frame_wait_stays_blocked [OF b q idle])
  have w1: "frame_wait P (pre @ ClientRestart # post) ?w = Proceed (client P ClientRestart ?m)"
    by (rule frame_wait_restart [OF b q idle bit])
  have fr: "hdr_frame (client P ClientRestart ?m) = hdr_frame shm2"
    using k by simp
  have u: "(frame_flags (hdr_frame shm2) OR KVMFR_FRAME_FLAG_UPDATE P)
      AND KVMFR_FRAME_FLAG_UPDATE P \<noteq> 0"
    by (rule update_bit_raised [OF blocked])
  show ?thesis
  proof (cases repeat)
    case True
    have o: "Process P env svc shm = publish_repeat P env ?svc3 shm2" using out True by simp
    from True have w: "?w = shm2" by simp
    show ?thesis
    proof (intro conjI impI)
      assume "client_actions env = pre"
      then show "\<exists>svc' shm'. Process P env svc shm = Spinning svc' shm'"
        unfolding o using w0 w by (simp add: publish_repeat_def)
    next
      assume "client_actions env = pre @ ClientRestart # post"
      then have "Process P env svc shm =
          Returned True ?svc3 (end_of_cycle P (signal_frame P (client P ClientRestart ?m)))"
        unfolding o using w1 w by (simp add: publish_repeat_def)
      moreover have "hdr_frame (end_of_cycle P (signal_frame P (client P ClientRestart ?m)))
          = (hdr_frame shm2)\<lparr>frame_flags :=
              frame_flags (hdr_frame shm2) OR KVMFR_FRAME_FLAG_UPDATE P\<rparr>"
        using fr by (simp add: end_of_cycle_def signal_frame_def)
      ultimately show "\<exists>svc' shm'. Process P env svc shm = Returned True svc' shm'
             \<and> frame_flags (hdr_frame shm') =
                 frame_flags (hdr_frame shm2) OR KVMFR_FRAME_FLAG_UPDATE P
             \<and> frame_flags (hdr_frame shm') AND KVMFR_FRAME_FLAG_UPDATE P \<noteq> 0
             \<and> (if repeat
                 then frame_type (hdr_frame shm') = frame_type (hdr_frame shm2)
                    \<and> frame_width (hdr_frame shm') = frame_width (hdr_frame shm2)
                    \<and> frame_height (hdr_frame shm') = frame_height (hdr_frame shm2)
                    \<and> frame_stride (hdr_frame shm') = frame_stride (hdr_frame shm2)
                    \<and> frame_pitch (hdr_frame shm') = frame_pitch (hdr_frame shm2)
                    \<and> frame_dataPos (hdr_frame shm') = frame_dataPos (hdr_frame shm2)
                 else frame_type (hdr_frame shm') = GetFrameType env
                    \<and> frame_width (hdr_frame shm') = fi_width (GetFrame_frame env)
                    \<and> frame_height (hdr_frame shm') = fi_height (GetFrame_frame env)
                    \<and> frame_stride (hdr_frame shm') = fi_stride (GetFrame_frame env)
                    \<and> frame_pitch (hdr_frame shm') = fi_pitch (GetFrame_frame env)
                    \<and> frame_dataPos (hdr_frame shm') =
                        m_dataOffset svc2 ! nat (m_frameIndex svc2))"
        using True u by simp
    qed
  next
    case False
    with gf have g: "GetFrame_status env = GRAB_STATUS_OK" by simp
    have o: "Process P env svc shm = publish_new P env ?svc3 shm2" using out False by simp
    from False have w: "?w = shm2\<lparr>shm_data := (shm_data shm2)(m_frame ?svc3 ! nat (m_frameIndex ?svc3) :=
        fi_pixels (GetFrame_frame env))\<rparr>" by simp
    show ?thesis
    proof (intro conjI impI)
      assume "client_actions env = pre"
      then show "\<exists>svc' shm'. Process P env svc shm = Spinning svc' shm'"
        unfolding o using w0 w g by (simp add: publish_new_def Let_def)
    next
      assume "client_actions env = pre @ ClientRestart # post"
      then have "\<exists>svc'. Process P env svc shm =
          Returned True svc' (end_of_cycle P (signal_frame P
            (write_frame_info env (m_dataOffset ?svc3 ! nat (m_frameIndex ?svc3))
               (client P ClientRestart ?m))))"
        unfolding o using w1 w g by (simp add: publish_new_def Let_def)
      moreover have "hdr_frame (end_of_cycle P (signal_frame P
            (write_frame_info env (m_dataOffset ?svc3 ! nat (m_frameIndex ?svc3))
               (client P ClientRestart ?m))))
          = (hdr_frame shm2)\<lparr>frame_type := GetFrameType env,
               frame_width := fi_width (GetFrame_frame env),
               frame_height := fi_height (GetFrame_frame env),
               frame_stride := fi_stride (GetFrame_frame env),
               frame_pitch := fi_pitch (GetFrame_frame env),
               frame_dataPos := m_dataOffset svc2 ! nat (m_frameIndex svc2),
               frame_flags := frame_flags (hdr_frame shm2) OR KVMFR_FRAME_FLAG_UPDATE P\<rparr>"
        using fr by (simp add: end_of_cycle_def signal_frame_def write_frame_info_def
            stage_cursor_keeps)
      ultimately show "\<exists>svc' shm'. Process P env svc shm = Returned True svc' shm'
             \<and> frame_flags (hdr_frame shm') =
                 frame_flags (hdr_frame shm2) OR KVMFR_FRAME_FLAG_UPDATE P
             \<and> frame_flags (hdr_frame shm') AND KVMFR_FRAME_FLAG_UPDATE P \<noteq> 0
             \<and> (if repeat
                 then frame_type (hdr_frame shm') = frame_type (hdr_frame shm2)
                    \<and> frame_width (hdr_frame shm') = frame_width (hdr_frame shm2)
                    \<and> frame_height (hdr_frame shm') = frame_height (hdr_frame shm2)
                    \<and> frame_stride (hdr_frame shm') = frame_stride (hdr_frame shm2)
                    \<and> frame_pitch (hdr_frame shm') = frame_pitch (hdr_frame shm2)
                    \<and> frame_dataPos (hdr_frame shm') = frame_dataPos (hdr_frame shm2)
                 else frame_type (hdr_frame shm') = GetFrameType env
                    \<and> frame_width (hdr_frame shm') = fi_width (GetFrame_frame env)
                    \<and> frame_height (hdr_frame shm') = fi_height (GetFrame_frame env)
                    \<and> frame_stride (hdr_frame shm') = fi_stride (GetFrame_frame env)
                    \<and> frame_pitch (hdr_frame shm') = fi_pitch (GetFrame_frame env)
                    \<and> frame_dataPos (hdr_frame shm') =
                        m_dataOffset svc2 ! nat (m_frameIndex svc2))"
        using False u by auto
    qed
  qed
qed

text \<open>
  The theorem at the example with slot 0 published and not yet acknowledged: a
  repeated-frame cycle in which RESTART comes after an idle poll, and a new-frame
  cycle in which it comes at once.
\<close>

theorem restart_unblocks_and_publishes_witness:
  "m_initialized published_service
   \<and> restart_check example_params (example_env [grab GRAB_STATUS_TIMEOUT] 0 [ClientIdle, ClientRestart])
        published_service published_shm = Some published_shm
   \<and> capture_loop example_params 0 [grab GRAB_STATUS_TIMEOUT] published_service published_shm
       = (LoopOk False True, rewound_service, published_shm, [])
   \<and> frame_flags (hdr_frame published_shm) AND KVMFR_FRAME_FLAG_UPDATE example_params \<noteq> 0
   \<and> hdr_flags published_shm AND KVMFR_HEADER_FLAG_RESTART example_params = 0
   \<and> KVMFR_HEADER_FLAG_RESTART example_params \<noteq> 0
   \<and> set [ClientIdle] \<subseteq> {ClientIdle, ClientCursorDone}
   \<and> (\<exists>svc' shm'.
         Process example_params (example_env [grab GRAB_STATUS_TIMEOUT] 0 [ClientIdle])
           published_service published_shm = Spinning svc' shm')
   \<and> (\<exists>svc' shm'.
         Process example_params (example_env [grab GRAB_STATUS_TIMEOUT] 0 [ClientIdle, ClientRestart])
           published_service published_shm = Returned True svc' shm'
         \<and> frame_dataPos (hdr_frame shm') = frame_dataPos (hdr_frame published_shm)
         \<and> frame_flags (hdr_frame shm') AND KVMFR_FRAME_FLAG_UPDATE example_params \<noteq> 0)
   \<and> (\<exists>svc' shm'.
         Process example_params (example_env [grab GRAB_STATUS_OK] 22 [ClientRestart])
           published_service published_shm = Returned True svc' shm'
         \<and> frame_dataPos (hdr_frame shm') = 34078720
         \<and> frame_flags (hdr_frame shm') AND KVMFR_FRAME_FLAG_UPDATE example_params \<noteq> 0)"
proof -
  have init: "m_initialized published_service" by (simp add: example_state_defs)
  have rc: "restart_check example_params (example_env caps px acts) published_service published_shm
      = Some published_shm" for caps px acts
    by (simp add: restart_check_def example_state_defs example_params_def)
  have clB: "capture_loop example_params 0
      (captures (example_env [grab GRAB_STATUS_TIMEOUT] 0 acts)) published_service published_shm
       = (LoopOk False True, rewound_service, published_shm, [])" for acts
    by (simp add: example_env_def grab_def example_state_defs example_params_def)
  have clA: "capture_loop example_params 0
      (captures (example_env [grab GRAB_STATUS_OK] 22 acts)) published_service published_shm
       = (LoopOk False False, published_service, published_shm, [])" for acts
    by (simp add: example_env_def grab_def)
  have gA: "False \<or> GetFrame_status (example_env [grab GRAB_STATUS_OK] 22 acts) = GRAB_STATUS_OK"
    for acts by (simp add: example_env_def)
  have gB: "True \<or> GetFrame_status (example_env [grab GRAB_STATUS_TIMEOUT] 0 acts) = GRAB_STATUS_OK"
    for acts by simp
  have b: "frame_flags (hdr_frame published_shm) AND KVMFR_FRAME_FLAG_UPDATE example_params \<noteq> 0"
    and q: "hdr_flags published_shm AND KVMFR_HEADER_FLAG_RESTART example_params = 0"
    and bit: "KVMFR_HEADER_FLAG_RESTART example_params \<noteq> 0"
    by (simp_all add: example_state_defs example_params_def)
  have i1: "set [ClientIdle] \<subseteq> {ClientIdle, ClientCursorDone}"
    and i0: "set [] \<subseteq> {ClientIdle, ClientCursorDone}" by simp_all
  have ca: "client_actions (example_env caps px acts) = acts" for caps px acts
    by (simp add: example_env_def)
  have d: "m_dataOffset published_service ! nat (m_frameIndex published_service) = 34078720"
    by (simp add: example_state_defs)
  note s = restart_unblocks_and_publishes [OF init
      rc [of "[grab GRAB_STATUS_TIMEOUT]" 0 "[ClientIdle]"] clB [of "[ClientIdle]"]
      gB [of "[ClientIdle]"] b q bit i1, where post = "[]"]
  note t = restart_unblocks_and_publishes [OF init
      rc [of "[grab GRAB_STATUS_TIMEOUT]" 0 "[ClientIdle, ClientRestart]"]
      clB [of "[ClientIdle, ClientRestart]"] gB [of "[ClientIdle, ClientRestart]"] b q bit i1,
      where post = "[]"]
  note u = restart_unblocks_and_publishes [OF init
      rc [of "[grab GRAB_STATUS_OK]" 22 "[ClientRestart]"] clA [of "[ClientRestart]"]
      gA [of "[ClientRestart]"] b q bit i0, where post = "[]"]
  from s have 1: "\<exists>svc' shm'.
         Process example_params (example_env [grab GRAB_STATUS_TIMEOUT] 0 [ClientIdle])
           published_service published_shm = Spinning svc' shm'"
    unfolding ca by blast
  from t have 2: "\<exists>svc' shm'.
         Process example_params (example_env [grab GRAB_STATUS_TIMEOUT] 0 [ClientIdle, ClientRestart])
           published_service published_shm = Returned True svc' shm'
         \<and> frame_dataPos (hdr_frame shm') = frame_dataPos (hdr_frame published_shm)
         \<and> frame_flags (hdr_frame shm') AND KVMFR_FRAME_FLAG_UPDATE example_params \<noteq> 0"
    unfolding ca by (simp, blast)
  from u have 3: "\<exists>svc' shm'.
         Process example_params (example_env [grab GRAB_STATUS_OK] 22 [ClientRestart])
           published_service published_shm = Returned True svc' shm'
         \<and> frame_dataPos (hdr_frame shm') = 34078720
         \<and> frame_flags (hdr_frame shm') AND KVMFR_FRAME_FLAG_UPDATE example_params \<noteq> 0"
    unfolding ca d by (simp, blast)
  have clB': "capture_loop example_params 0 [grab GRAB_STATUS_TIMEOUT] published_service published_shm
       = (LoopOk False True, rewound_service, published_shm, [])"
    using clB [of "[]"] by (simp add: example_env_def)
  from init rc [of "[grab GRAB_STATUS_TIMEOUT]" 0 "[ClientIdle, ClientRestart]"] clB' b q bit i1 1 2 3
  show ?thesis by blast
qed

text \<open>
  Claim C2 as stated fails: after RESTART has ended the wait, the descriptor's
  \<open>dataPos\<close> is rewritten from the offset of slot 0 to that of slot 1, with UPDATE
  set throughout.
\<close>

theorem restart_does_not_abandon_publish:
  "frame_flags (hdr_frame published_shm) AND KVMFR_FRAME_FLAG_UPDATE example_params \<noteq> 0
   \<and> hdr_flags published_shm AND KVMFR_HEADER_FLAG_RESTART example_params = 0
   \<and> frame_dataPos (hdr_frame published_shm) = 1048704
   \<and> Process example_params (example_env [grab GRAB_STATUS_OK] 22 [ClientRestart])
        published_service published_shm
      = Returned True (published_service\<lparr>m_frameIndex := 0\<rparr>)
          (published_shm\<lparr>hdr_flags := 1,
             hdr_frame := (hdr_frame published_shm)\<lparr>frame_dataPos := 34078720\<rparr>,
             shm_data := (shm_data published_shm)(302514176 := 22)\<rparr>)"
  by (simp add: cycle_defs example_state_defs)

text \<open>
  Claim C10 at a failing \<^verbatim>\<open>GetFrame\<close>. A PAUSED bit left in the mapping survives
  \<^verbatim>\<open>Initialize\<close>, which clears RESTART only. When \<^verbatim>\<open>Capture()\<close> answers
  \<^verbatim>\<open>GRAB_STATUS_OK\<close> and \<^verbatim>\<open>GetFrame\<close> answers \<^verbatim>\<open>GRAB_STATUS_ERROR\<close>,
  \<^verbatim>\<open>return result\<close> converts the non-zero enumerator to \<^verbatim>\<open>true\<close>: the caller
  sees a successful cycle, and the flag byte has not been touched.
\<close>

theorem failed_GetFrame_returns_true:
  "Initialize example_params example_init_env new_Service (blank_Shm\<lparr>hdr_flags := 2\<rparr>)
     = Some (True, example_service, example_shm\<lparr>hdr_flags := 2\<rparr>)
   \<and> hdr_flags (example_shm\<lparr>hdr_flags := 2\<rparr>) AND NOT (KVMFR_HEADER_FLAG_RESTART example_params)
       = KVMFR_HEADER_FLAG_PAUSED example_params
   \<and> Process example_params
        ((example_env [grab GRAB_STATUS_OK] 11 [])\<lparr>GetFrame_status := GRAB_STATUS_ERROR\<rparr>)
        example_service (example_shm\<lparr>hdr_flags := 2\<rparr>)
      = Returned True example_service (example_shm\<lparr>hdr_flags := 2\<rparr>)"
  by (simp add: cycle_defs example_state_defs Initialize_def InitPointers_def ALIGN_UP_def
      ALIGN_DN_def example_init_env_def new_Service_def blank_Shm_def upt_rec)

lemma end_of_cycle_flags:
  "hdr_flags (end_of_cycle P shm) AND NOT (KVMFR_HEADER_FLAG_RESTART P) = 0"
  "hdr_flags (end_of_cycle P shm) AND KVMFR_HEADER_FLAG_RESTART P =
     hdr_flags shm AND KVMFR_HEADER_FLAG_RESTART P"
  by (simp_all add: end_of_cycle_def and.assoc)

lemma Process_success_clears_flags:
  assumes gf: "GetFrame_status env = GRAB_STATUS_OK"
    and r: "Process P env svc shm = Returned True svc' shm'"
  shows "hdr_flags shm' AND NOT (KVMFR_HEADER_FLAG_RESTART P) = 0"
proof -
  from r have init: "m_initialized svc" and "restart_check P env svc shm \<noteq> None"
    by (auto simp: Process_def split: if_splits option.splits)
  then obtain shm1 where rc: "restart_check P env svc shm = Some shm1" by auto
  obtain ex svc2 shm2 rest where
    cl: "capture_loop P 0 (captures env) svc shm1 = (ex, svc2, shm2, rest)"
    by (cases "capture_loop P 0 (captures env) svc shm1") auto
  have out: "after_capture P env (ex, svc2, shm2, rest) = Returned True svc' shm'"
    using Process_started [OF init rc] cl r by simp
  then have "\<exists>pre. shm' = end_of_cycle P pre"
    using gf
    by (auto simp: after_capture_def publish_new_def publish_repeat_def Let_def
        split: loop_exit.splits if_splits wait_result.splits)
  then show ?thesis using end_of_cycle_flags(1) by blast
qed

lemma some_failure_converts_to_true:
  assumes "inj (GrabStatus_value P)"
  shows "GrabStatus_value P GRAB_STATUS_ERROR \<noteq> 0 \<or> GrabStatus_value P GRAB_STATUS_TIMEOUT \<noteq> 0"
proof (rule ccontr)
  assume "\<not> ?thesis"
  then have "GrabStatus_value P GRAB_STATUS_ERROR = GrabStatus_value P GRAB_STATUS_TIMEOUT"
    by simp
  with assms have "GRAB_STATUS_ERROR = GRAB_STATUS_TIMEOUT" by (rule injD)
  then show False by simp
qed

lemma Initialize_rejects_short_header:
  "\<not> m_initialized svc \<Longrightarrow> ivshmem_GetSize ienv < sizeof_KVMFRHeader P \<Longrightarrow>
     Initialize P ienv svc shm =
       Some (False,
         svc\<lparr>m_shmHeader := 0, m_cursorData := 0, m_cursorDataSize := 0, m_cursorOffset := 0,
           m_haveFrame := False, m_frame := replicate (MAX_FRAMES P) 0,
           m_dataOffset := replicate (MAX_FRAMES P) 0, m_frameSize := 0, m_capture := False,
           m_memory := 0, m_initialized := False\<rparr>,
         shm)"
  by (simp add: Initialize_def deinitialize_return_false_def DeInitialize_def Let_def)

text \<open>
  Claim C6 at a device of 1 MiB, which holds the header but not the 1 MiB cursor
  region after it. The unsigned subtraction in \<^verbatim>\<open>InitPointers\<close> wraps, the slot
  size comes out near \<open>2 ^ 63\<close>, the check against the maximum frame size passes
  and \<^verbatim>\<open>Initialize\<close> returns \<^verbatim>\<open>true\<close>.
\<close>

theorem Initialize_accepts_undersized_region:
  "sizeof_KVMFRHeader example_params \<le> ivshmem_GetSize (example_init_env\<lparr>ivshmem_GetSize := 0x100000\<rparr>)
   \<and> (\<exists>svc' shm'.
         Initialize example_params (example_init_env\<lparr>ivshmem_GetSize := 0x100000\<rparr>)
           new_Service blank_Shm = Some (True, svc', shm')
         \<and> m_frameSize svc' = 9223372036854775680
         \<and> \<not> cursor_region svc' \<subseteq> mapped_region 0x100000)"
  by (simp add: Initialize_def InitPointers_def ALIGN_UP_def ALIGN_DN_def Let_def
      example_params_def example_init_env_def new_Service_def blank_Shm_def
      cursor_region_def mapped_region_def)

section \<open>Properties of the cursor thread\<close>

lemma publish_position_shape_fields:
  "publish_position P svc shm = (svc1, shm1) \<Longrightarrow>
     cursor_version (hdr_cursor shm1) = cursor_version (hdr_cursor shm)
     \<and> cursor_type (hdr_cursor shm1) = cursor_type (hdr_cursor shm)
     \<and> cursor_width (hdr_cursor shm1) = cursor_width (hdr_cursor shm)
     \<and> cursor_height (hdr_cursor shm1) = cursor_height (hdr_cursor shm)
     \<and> cursor_pitch (hdr_cursor shm1) = cursor_pitch (hdr_cursor shm)
     \<and> cursor_dataPos (hdr_cursor shm1) = cursor_dataPos (hdr_cursor shm)
     \<and> shm_data shm1 = shm_data shm
     \<and> ci_hasShape (m_cursorInfo svc1) = ci_hasShape (m_cursorInfo svc)
     \<and> ci_dataSize (m_cursorInfo svc1) = ci_dataSize (m_cursorInfo svc)
     \<and> m_cursorDataSize svc1 = m_cursorDataSize svc
     \<and> \<not> ci_hasPos (m_cursorInfo svc1)"
  by (auto simp: publish_position_def Let_def split: if_splits)

lemma publish_position_staged:
  "ci_hasPos (m_cursorInfo svc) \<Longrightarrow> publish_position P svc shm = (svc1, shm1) \<Longrightarrow>
     cursor_x (hdr_cursor shm1) = ci_x (m_cursorInfo svc)
     \<and> cursor_y (hdr_cursor shm1) = ci_y (m_cursorInfo svc)"
  by (auto simp: publish_position_def Let_def split: if_splits)

lemma cursor_wait_Ready:
  "cursor_wait P evs svc shm = Ready svc1 shm1 \<Longrightarrow>
     svc1 = svc \<and> cursor_flags (hdr_cursor shm1) = 0
     \<and> (hdr_cursor shm1)\<lparr>cursor_flags := 0\<rparr> = (hdr_cursor shm)\<lparr>cursor_flags := 0\<rparr>
     \<and> shm_data shm1 = shm_data shm"
proof (induction evs arbitrary: svc shm)
  case Nil
  then show ?case by (auto split: if_splits)
next
  case (Cons e evs)
  show ?case
  proof (cases "cursor_flags (hdr_cursor shm) = 0")
    case True
    with Cons.prems show ?thesis by auto
  next
    case False
    note nz = this
    show ?thesis
    proof (cases e)
      case (ClientDoes a)
      with Cons.prems nz have r: "cursor_wait P evs svc (client P a shm) = Ready svc1 shm1"
        by (simp split: if_splits)
      from Cons.IH [OF r] show ?thesis by (cases a) simp_all
    next
      case CaptureReleased
      with Cons.prems nz show ?thesis by simp
    qed
  qed
qed

lemma publish_shape_fits:
  assumes "ci_hasShape (m_cursorInfo svc)" "ci_dataSize (m_cursorInfo svc) \<le> m_cursorDataSize svc"
  shows "publish_shape P svc shm =
     (svc\<lparr>m_cursorInfo := (m_cursorInfo svc)\<lparr>ci_hasShape := False\<rparr>\<rparr>,
      shm\<lparr>hdr_cursor := (hdr_cursor shm)\<lparr>
            cursor_flags := cursor_flags (hdr_cursor shm) OR KVMFR_CURSOR_FLAG_SHAPE P,
            cursor_version := (cursor_version (hdr_cursor shm) + 1) mod 2 ^ version_bits P,
            cursor_type := ci_type (m_cursorInfo svc),
            cursor_width := ci_w (m_cursorInfo svc),
            cursor_height := ci_h (m_cursorInfo svc),
            cursor_pitch := ci_pitch (m_cursorInfo svc),
            cursor_dataPos := m_cursorOffset svc\<rparr>,
          shm_data := (shm_data shm)(m_cursorData svc := ci_shape (m_cursorInfo svc))\<rparr>,
      [])"
proof -
  from assms(2) have "\<not> m_cursorDataSize svc < ci_dataSize (m_cursorInfo svc)" by (rule leD)
  with assms(1) show ?thesis by (simp add: publish_shape_def Let_def)
qed

lemma publish_shape_too_big:
  assumes "ci_hasShape (m_cursorInfo svc)" "ci_dataSize (m_cursorInfo svc) > m_cursorDataSize svc"
  shows "publish_shape P svc shm =
     (svc\<lparr>m_cursorInfo := (m_cursorInfo svc)\<lparr>ci_hasShape := False\<rparr>\<rparr>, shm,
      [''Cursor size exceeds allocated space''])"
  using assms by (simp add: publish_shape_def Let_def)

lemma CursorThread_pass_Ready:
  "m_capture svc0 \<Longrightarrow> m_cursorEvent svc0 \<Longrightarrow>
   cursor_wait P evs (svc0\<lparr>m_cursorEvent := False\<rparr>) shm0 = Ready svc shm \<Longrightarrow>
   cursor_payload P svc shm = (svc', shm', diag) \<Longrightarrow>
     CursorThread_pass P evs svc0 shm0 = Continue svc' (signal_cursor P shm') diag"
  by (simp add: CursorThread_pass_def)

text \<open>
  Claim C8. For a drain of the staging struct with a shape update staged: if the
  shape's data size is within the cursor region's capacity, the version counter of
  the shared descriptor becomes its successor (modulo the counter's width: one more
  whenever the counter is not at its maximum); if the data size exceeds the
  capacity, the version counter, the shape fields and the data regions are left as
  they were, the mapped region is exactly what the position update alone leaves
  (a staged position is published), and only the diagnostic is printed. In both
  cases the pass of the thread goes on: it signals UPDATE and returns to its loop.
\<close>

theorem shape_update_version:
  assumes staged: "ci_hasShape (m_cursorInfo svc)"
    and res: "cursor_payload P svc shm = (svc', shm', diag)"
  shows "(ci_dataSize (m_cursorInfo svc) \<le> m_cursorDataSize svc \<longrightarrow>
            cursor_version (hdr_cursor shm') =
              (cursor_version (hdr_cursor shm) + 1) mod 2 ^ version_bits P
          \<and> (cursor_version (hdr_cursor shm) + 1 < 2 ^ version_bits P \<longrightarrow>
               cursor_version (hdr_cursor shm') = cursor_version (hdr_cursor shm) + 1)
          \<and> diag = [])
    \<and> (ci_dataSize (m_cursorInfo svc) > m_cursorDataSize svc \<longrightarrow>
            cursor_version (hdr_cursor shm') = cursor_version (hdr_cursor shm)
          \<and> cursor_type (hdr_cursor shm') = cursor_type (hdr_cursor shm)
          \<and> cursor_width (hdr_cursor shm') = cursor_width (hdr_cursor shm)
          \<and> cursor_height (hdr_cursor shm') = cursor_height (hdr_cursor shm)
          \<and> cursor_pitch (hdr_cursor shm') = cursor_pitch (hdr_cursor shm)
          \<and> cursor_dataPos (hdr_cursor shm') = cursor_dataPos (hdr_cursor shm)
          \<and> shm_data shm' = shm_data shm
          \<and> shm' = snd (publish_position P svc shm)
          \<and> diag = [''Cursor size exceeds allocated space'']
          \<and> \<not> ci_hasShape (m_cursorInfo svc')
          \<and> (ci_hasPos (m_cursorInfo svc) \<longrightarrow>
                cursor_x (hdr_cursor shm') = ci_x (m_cursorInfo svc)
              \<and> cursor_y (hdr_cursor shm') = ci_y (m_cursorInfo svc)
              \<and> cursor_flags (hdr_cursor shm') =
                  (if ci_visible (m_cursorInfo svc)
                   then (cursor_flags (hdr_cursor shm) OR KVMFR_CURSOR_FLAG_POS P)
                          OR KVMFR_CURSOR_FLAG_VISIBLE P
                   else (cursor_flags (hdr_cursor shm) OR KVMFR_CURSOR_FLAG_POS P)
                          AND NOT (KVMFR_CURSOR_FLAG_VISIBLE P))))
    \<and> (m_capture svc0 \<and> m_cursorEvent svc0
        \<and> cursor_wait P evs (svc0\<lparr>m_cursorEvent := False\<rparr>) shm0 = Ready svc shm \<longrightarrow>
          CursorThread_pass P evs svc0 shm0 = Continue svc' (signal_cursor P shm') diag)"
proof -
  obtain svc1 shm1 where pp: "publish_position P svc shm = (svc1, shm1)"
    by (cases "publish_position P svc shm") auto
  note k = publish_position_shape_fields [OF pp]
  from staged k have st1: "ci_hasShape (m_cursorInfo svc1)" by simp
  have ps: "publish_shape P svc1 shm1 = (svc', shm', diag)"
    using res pp by (simp add: cursor_payload_def)
  show ?thesis
  proof (intro conjI impI)
    assume "ci_dataSize (m_cursorInfo svc) \<le> m_cursorDataSize svc"
    with k have f: "ci_dataSize (m_cursorInfo svc1) \<le> m_cursorDataSize svc1" by simp
    from ps publish_shape_fits [OF st1 f, of P shm1] k
    show v: "cursor_version (hdr_cursor shm') =
        (cursor_version (hdr_cursor shm) + 1) mod 2 ^ version_bits P"
      and "diag = []" by auto
    assume "cursor_version (hdr_cursor shm) + 1 < 2 ^ version_bits P"
    with v show "cursor_version (hdr_cursor shm') = cursor_version (hdr_cursor shm) + 1"
      by simp
  next
    assume "ci_dataSize (m_cursorInfo svc) > m_cursorDataSize svc"
    with k have b: "ci_dataSize (m_cursorInfo svc1) > m_cursorDataSize svc1" by simp
    from ps publish_shape_too_big [OF st1 b, of P shm1]
    have e: "shm' = shm1" "diag = [''Cursor size exceeds allocated space'']"
      "svc' = svc1\<lparr>m_cursorInfo := (m_cursorInfo svc1)\<lparr>ci_hasShape := False\<rparr>\<rparr>" by auto
    from e k show "cursor_version (hdr_cursor shm') = cursor_version (hdr_cursor shm)"
      "cursor_type (hdr_cursor shm') = cursor_type (hdr_cursor shm)"
      "cursor_width (hdr_cursor shm') = cursor_width (hdr_cursor shm)"
      "cursor_height (hdr_cursor shm') = cursor_height (hdr_cursor shm)"
      "cursor_pitch (hdr_cursor shm') = cursor_pitch (hdr_cursor shm)"
      "cursor_dataPos (hdr_cursor shm') = cursor_dataPos (hdr_cursor shm)"
      "shm_data shm' = shm_data shm" by simp_all
    from e pp show "shm' = snd (publish_position P svc shm)" by simp
    from e show "diag = [''Cursor size exceeds allocated space'']" by simp
    from e show "\<not> ci_hasShape (m_cursorInfo svc')" by simp
    assume hp: "ci_hasPos (m_cursorInfo svc)"
    from publish_position_staged [OF hp pp] e
    show "cursor_x (hdr_cursor shm') = ci_x (m_cursorInfo svc)"
      "cursor_y (hdr_cursor shm') = ci_y (m_cursorInfo svc)" by simp_all
    from hp pp e show "cursor_flags (hdr_cursor shm') =
        (if ci_visible (m_cursorInfo svc)
         then (cursor_flags (hdr_cursor shm) OR KVMFR_CURSOR_FLAG_POS P)
                OR KVMFR_CURSOR_FLAG_VISIBLE P
         else (cursor_flags (hdr_cursor shm) OR KVMFR_CURSOR_FLAG_POS P)
                AND NOT (KVMFR_CURSOR_FLAG_VISIBLE P))"
      by (auto simp: publish_position_def Let_def)
  next
    assume "m_capture svc0 \<and> m_cursorEvent svc0
        \<and> cursor_wait P evs (svc0\<lparr>m_cursorEvent := False\<rparr>) shm0 = Ready svc shm"
    then show "CursorThread_pass P evs svc0 shm0 = Continue svc' (signal_cursor P shm') diag"
      using res by (simp add: CursorThread_pass_Ready)
  qed
qed

lemma both_staged_eval:
  "both_staged n = \<lparr>m_initialized = True, m_memory = 268435456, m_capture = True,
     m_shmHeader = 268435456, m_frameIndex = 0, m_cursorDataSize = 1048576,
     m_cursorData = 268435584, m_cursorOffset = 128, m_haveFrame = False,
     m_frameSize = 33030016, m_frame = [269484160, 302514176],
     m_dataOffset = [1048704, 34078720],
     m_cursorInfo = \<lparr>ci_updated = True, ci_visible = True, ci_hasShape = True,
       ci_hasPos = True, ci_x = 10, ci_y = 20, ci_type = 1, ci_w = 32, ci_h = 32,
       ci_pitch = 128, ci_dataSize = n, ci_shape = 77\<rparr>,
     m_cursorEvent = True\<rparr>"
  by (simp add: both_staged_def example_service_eval)

lemmas cursor_defs = CursorThread_pass_def cursor_payload_def publish_position_def
  publish_shape_def signal_cursor_def Let_def example_params_def zero_cursor_def

text \<open>
  The theorem at the example with a shape of 4096 bytes and with one of 2 MiB.
\<close>

theorem shape_update_version_witness:
  "ci_hasShape (m_cursorInfo (both_staged 4096))
   \<and> ci_dataSize (m_cursorInfo (both_staged 4096)) \<le> m_cursorDataSize (both_staged 4096)
   \<and> cursor_version (hdr_cursor example_shm) + 1 < 2 ^ version_bits example_params
   \<and> cursor_version (hdr_cursor (fst (snd (cursor_payload example_params (both_staged 4096)
          example_shm)))) = cursor_version (hdr_cursor example_shm) + 1
   \<and> ci_hasShape (m_cursorInfo (both_staged 0x200000))
   \<and> ci_dataSize (m_cursorInfo (both_staged 0x200000)) > m_cursorDataSize (both_staged 0x200000)
   \<and> ci_hasPos (m_cursorInfo (both_staged 0x200000))
   \<and> cursor_version (hdr_cursor (fst (snd (cursor_payload example_params
          (both_staged 0x200000) example_shm)))) = cursor_version (hdr_cursor example_shm)
   \<and> cursor_x (hdr_cursor (fst (snd (cursor_payload example_params
          (both_staged 0x200000) example_shm)))) = 10
   \<and> snd (snd (cursor_payload example_params (both_staged 0x200000) example_shm))
       = [''Cursor size exceeds allocated space'']"
proof -
  let ?r = "cursor_payload example_params (both_staged 4096) example_shm"
  let ?q = "cursor_payload example_params (both_staged 0x200000) example_shm"
  have h1: "ci_hasShape (m_cursorInfo (both_staged 4096))"
    and h2: "ci_dataSize (m_cursorInfo (both_staged 4096)) \<le> m_cursorDataSize (both_staged 4096)"
    and h3: "cursor_version (hdr_cursor example_shm) + 1 < 2 ^ version_bits example_params"
    by (simp_all add: both_staged_eval example_shm_eval zero_cursor_def example_params_def)
  have g1: "ci_hasShape (m_cursorInfo (both_staged 0x200000))"
    and g2: "ci_dataSize (m_cursorInfo (both_staged 0x200000)) > m_cursorDataSize (both_staged 0x200000)"
    and g3: "ci_hasPos (m_cursorInfo (both_staged 0x200000))"
    and g4: "ci_x (m_cursorInfo (both_staged 0x200000)) = 10"
    by (simp_all add: both_staged_eval)
  have r: "?r = (fst ?r, fst (snd ?r), snd (snd ?r))" by simp
  have q: "?q = (fst ?q, fst (snd ?q), snd (snd ?q))" by simp
  note t = shape_update_version [OF h1 r]
  note u = shape_update_version [OF g1 q]
  from t h2 h3 have 1: "cursor_version (hdr_cursor (fst (snd ?r)))
      = cursor_version (hdr_cursor example_shm) + 1" by blast
  from u g2 g3 have 2: "cursor_version (hdr_cursor (fst (snd ?q)))
      = cursor_version (hdr_cursor example_shm)"
    and 3: "cursor_x (hdr_cursor (fst (snd ?q))) = ci_x (m_cursorInfo (both_staged 0x200000))"
    and 4: "snd (snd ?q) = [''Cursor size exceeds allocated space'']" by blast+
  from h1 h2 h3 g1 g2 g3 1 2 3 4 show ?thesis unfolding g4 by blast
qed

lemma disjoint_or: "p AND u = 0 \<Longrightarrow> v AND u = 0 \<Longrightarrow> (p OR v) AND u = 0" for p u v :: u8
  by (simp add: bit.conj_disj_distrib2)

lemma disjoint_and: "p AND u = 0 \<Longrightarrow> (p AND x) AND u = 0" for p u x :: u8
  by (metis and.assoc and.commute and_zero_eq)

lemma and_or_absorb: "(x OR u) AND u = u" for x u :: u8
  by (auto simp: bit_eq_iff bit_and_iff bit_or_iff)

lemma or_keeps: "x AND p = p \<Longrightarrow> (x OR u) AND p = p" for x u p :: u8
  by (auto simp: bit_eq_iff bit_and_iff bit_or_iff)

lemma not_disjoint_keeps: "p AND v = 0 \<Longrightarrow> (p AND NOT v) AND p = p" for p v :: u8
  by (auto simp: bit_eq_iff bit_and_iff bit_or_iff bit_not_iff)

lemma or_first: "(p OR v) AND p = p" for p v :: u8
  by (auto simp: bit_eq_iff bit_and_iff bit_or_iff)

text \<open>
  Claim C9, as amended. With a position update and a shape update both staged, the
  shape within the capacity of the cursor region, the flag masks bitwise disjoint
  from UPDATE and POS disjoint from VISIBLE: once the consumer has acknowledged, one
  pass of the thread writes both. Before its last store every payload field holds
  the staged value, POS and SHAPE are set, UPDATE is clear and the version counter
  has been incremented once; the last store only or-s UPDATE into the flag byte.
  Both dirty flags are then clear, and a further drain writes nothing.
\<close>

theorem double_update_single_publish:
  assumes cap: "m_capture svc0" and ev: "m_cursorEvent svc0"
    and pos: "ci_hasPos (m_cursorInfo svc0)" and shape: "ci_hasShape (m_cursorInfo svc0)"
    and fits: "ci_dataSize (m_cursorInfo svc0) \<le> m_cursorDataSize svc0"
    and ack: "cursor_wait P evs (svc0\<lparr>m_cursorEvent := False\<rparr>) shm0 = Ready svc shm"
    and masks: "KVMFR_CURSOR_FLAG_POS P AND KVMFR_CURSOR_FLAG_UPDATE P = 0"
      "KVMFR_CURSOR_FLAG_SHAPE P AND KVMFR_CURSOR_FLAG_UPDATE P = 0"
      "KVMFR_CURSOR_FLAG_VISIBLE P AND KVMFR_CURSOR_FLAG_UPDATE P = 0"
      "KVMFR_CURSOR_FLAG_POS P AND KVMFR_CURSOR_FLAG_VISIBLE P = 0"
  shows "\<exists>svc' shm2.
      cursor_payload P svc shm = (svc', shm2, [])
    \<and> CursorThread_pass P evs svc0 shm0 = Continue svc' (signal_cursor P shm2) []
    \<and> cursor_flags (hdr_cursor shm2) AND KVMFR_CURSOR_FLAG_UPDATE P = 0
    \<and> cursor_flags (hdr_cursor shm2) AND KVMFR_CURSOR_FLAG_POS P = KVMFR_CURSOR_FLAG_POS P
    \<and> cursor_flags (hdr_cursor shm2) AND KVMFR_CURSOR_FLAG_SHAPE P = KVMFR_CURSOR_FLAG_SHAPE P
    \<and> cursor_x (hdr_cursor shm2) = ci_x (m_cursorInfo svc0)
    \<and> cursor_y (hdr_cursor shm2) = ci_y (m_cursorInfo svc0)
    \<and> cursor_type (hdr_cursor shm2) = ci_type (m_cursorInfo svc0)
    \<and> cursor_width (hdr_cursor shm2) = ci_w (m_cursorInfo svc0)
    \<and> cursor_height (hdr_cursor shm2) = ci_h (m_cursorInfo svc0)
    \<and> cursor_pitch (hdr_cursor shm2) = ci_pitch (m_cursorInfo svc0)
    \<and> cursor_dataPos (hdr_cursor shm2) = m_cursorOffset svc0
    \<and> shm_data shm2 (m_cursorData svc0) = ci_shape (m_cursorInfo svc0)
    \<and> cursor_version (hdr_cursor shm2) =
        (cursor_version (hdr_cursor shm0) + 1) mod 2 ^ version_bits P
    \<and> signal_cursor P shm2 = shm2\<lparr>hdr_cursor := (hdr_cursor shm2)\<lparr>cursor_flags :=
        cursor_flags (hdr_cursor shm2) OR KVMFR_CURSOR_FLAG_UPDATE P\<rparr>\<rparr>
    \<and> cursor_flags (hdr_cursor (signal_cursor P shm2)) AND KVMFR_CURSOR_FLAG_UPDATE P
        = KVMFR_CURSOR_FLAG_UPDATE P
    \<and> cursor_flags (hdr_cursor (signal_cursor P shm2)) AND KVMFR_CURSOR_FLAG_POS P
        = KVMFR_CURSOR_FLAG_POS P
    \<and> cursor_flags (hdr_cursor (signal_cursor P shm2)) AND KVMFR_CURSOR_FLAG_SHAPE P
        = KVMFR_CURSOR_FLAG_SHAPE P
    \<and> \<not> ci_hasPos (m_cursorInfo svc') \<and> \<not> ci_hasShape (m_cursorInfo svc')
    \<and> (\<forall>m. cursor_payload P svc' m = (svc', m, []))"
proof -
  note w = cursor_wait_Ready [OF ack]
  from w have sv: "svc = svc0\<lparr>m_cursorEvent := False\<rparr>" and f0: "cursor_flags (hdr_cursor shm) = 0"
    by simp_all
  from w have "cursor_version ((hdr_cursor shm)\<lparr>cursor_flags := 0\<rparr>)
      = cursor_version ((hdr_cursor shm0)\<lparr>cursor_flags := 0\<rparr>)" by simp
  then have ver: "cursor_version (hdr_cursor shm) = cursor_version (hdr_cursor shm0)" by simp
  let ?info = "m_cursorInfo svc0"
  let ?pf = "if ci_visible ?info
      then KVMFR_CURSOR_FLAG_POS P OR KVMFR_CURSOR_FLAG_VISIBLE P
      else KVMFR_CURSOR_FLAG_POS P AND NOT (KVMFR_CURSOR_FLAG_VISIBLE P)"
  let ?svc1 = "svc\<lparr>m_cursorInfo := ?info\<lparr>ci_hasPos := False\<rparr>\<rparr>"
  let ?shm1 = "shm\<lparr>hdr_cursor := (hdr_cursor shm)\<lparr>cursor_x := ci_x ?info,
      cursor_y := ci_y ?info, cursor_flags := ?pf\<rparr>\<rparr>"
  have pp: "publish_position P svc shm = (?svc1, ?shm1)"
    using pos by (simp add: publish_position_def Let_def sv f0)
  have s1: "ci_hasShape (m_cursorInfo ?svc1)"
    and s2: "ci_dataSize (m_cursorInfo ?svc1) \<le> m_cursorDataSize ?svc1"
    using shape fits by (simp_all add: sv)
  let ?svc' = "?svc1\<lparr>m_cursorInfo := (m_cursorInfo ?svc1)\<lparr>ci_hasShape := False\<rparr>\<rparr>"
  let ?shm2 = "?shm1\<lparr>hdr_cursor := (hdr_cursor ?shm1)\<lparr>
            cursor_flags := cursor_flags (hdr_cursor ?shm1) OR KVMFR_CURSOR_FLAG_SHAPE P,
            cursor_version := (cursor_version (hdr_cursor ?shm1) + 1) mod 2 ^ version_bits P,
            cursor_type := ci_type (m_cursorInfo ?svc1),
            cursor_width := ci_w (m_cursorInfo ?svc1),
            cursor_height := ci_h (m_cursorInfo ?svc1),
            cursor_pitch := ci_pitch (m_cursorInfo ?svc1),
            cursor_dataPos := m_cursorOffset ?svc1\<rparr>,
          shm_data := (shm_data ?shm1)(m_cursorData ?svc1 := ci_shape (m_cursorInfo ?svc1))\<rparr>"
  have pl: "cursor_payload P svc shm = (?svc', ?shm2, [])"
    unfolding cursor_payload_def pp using publish_shape_fits [OF s1 s2, of P ?shm1] by simp
  have pass: "CursorThread_pass P evs svc0 shm0 = Continue ?svc' (signal_cursor P ?shm2) []"
    by (rule CursorThread_pass_Ready [OF cap ev ack pl])
  have fl: "cursor_flags (hdr_cursor ?shm2) = ?pf OR KVMFR_CURSOR_FLAG_SHAPE P" by simp
  have pu: "?pf AND KVMFR_CURSOR_FLAG_UPDATE P = 0"
  proof (cases "ci_visible ?info")
    case True
    then show ?thesis using disjoint_or [OF masks(1) masks(3)] by simp
  next
    case False
    then show ?thesis using disjoint_and [OF masks(1)] by simp
  qed
  have ppos: "?pf AND KVMFR_CURSOR_FLAG_POS P = KVMFR_CURSOR_FLAG_POS P"
  proof (cases "ci_visible ?info")
    case True
    then show ?thesis using or_first by simp
  next
    case False
    then show ?thesis using not_disjoint_keeps [OF masks(4)] by simp
  qed
  have a: "cursor_flags (hdr_cursor ?shm2) AND KVMFR_CURSOR_FLAG_UPDATE P = 0"
    unfolding fl by (rule disjoint_or [OF pu masks(2)])
  have b: "cursor_flags (hdr_cursor ?shm2) AND KVMFR_CURSOR_FLAG_POS P = KVMFR_CURSOR_FLAG_POS P"
    unfolding fl by (rule or_keeps [OF ppos])
  have c: "cursor_flags (hdr_cursor ?shm2) AND KVMFR_CURSOR_FLAG_SHAPE P = KVMFR_CURSOR_FLAG_SHAPE P"
    unfolding fl by (rule and_or_absorb)
  have sg: "signal_cursor P ?shm2 = ?shm2\<lparr>hdr_cursor := (hdr_cursor ?shm2)\<lparr>cursor_flags :=
        cursor_flags (hdr_cursor ?shm2) OR KVMFR_CURSOR_FLAG_UPDATE P\<rparr>\<rparr>"
    by (simp add: signal_cursor_def)
  have sf: "cursor_flags (hdr_cursor (signal_cursor P ?shm2)) =
      cursor_flags (hdr_cursor ?shm2) OR KVMFR_CURSOR_FLAG_UPDATE P"
    by (simp add: signal_cursor_def)
  have d: "cursor_flags (hdr_cursor (signal_cursor P ?shm2)) AND KVMFR_CURSOR_FLAG_UPDATE P
        = KVMFR_CURSOR_FLAG_UPDATE P"
    unfolding sf by (rule and_or_absorb)
  have e: "cursor_flags (hdr_cursor (signal_cursor P ?shm2)) AND KVMFR_CURSOR_FLAG_POS P
        = KVMFR_CURSOR_FLAG_POS P"
    unfolding sf by (rule or_keeps [OF b])
  have f: "cursor_flags (hdr_cursor (signal_cursor P ?shm2)) AND KVMFR_CURSOR_FLAG_SHAPE P
        = KVMFR_CURSOR_FLAG_SHAPE P"
    unfolding sf by (rule or_keeps [OF c])
  have idle: "cursor_payload P ?svc' m = (?svc', m, [])" for m
    by (simp add: cursor_payload_def publish_position_def publish_shape_def)
  have fields: "cursor_x (hdr_cursor ?shm2) = ci_x ?info"
    "cursor_y (hdr_cursor ?shm2) = ci_y ?info"
    "cursor_type (hdr_cursor ?shm2) = ci_type ?info"
    "cursor_width (hdr_cursor ?shm2) = ci_w ?info"
    "cursor_height (hdr_cursor ?shm2) = ci_h ?info"
    "cursor_pitch (hdr_cursor ?shm2) = ci_pitch ?info"
    "cursor_dataPos (hdr_cursor ?shm2) = m_cursorOffset svc0"
    "shm_data ?shm2 (m_cursorData svc0) = ci_shape ?info"
    "cursor_version (hdr_cursor ?shm2) =
        (cursor_version (hdr_cursor shm0) + 1) mod 2 ^ version_bits P"
    "\<not> ci_hasPos (m_cursorInfo ?svc')" "\<not> ci_hasShape (m_cursorInfo ?svc')"
    by (simp_all add: sv ver)
  show ?thesis
    apply (rule exI [of _ ?svc'])
    apply (rule exI [of _ ?shm2])
    apply (intro conjI allI)
    apply (rule pl pass a b c fields sg d e f idle)+
    done
qed

text \<open>
  The theorem at the example, where the consumer acknowledges a previous update
  during the wait.
\<close>

theorem double_update_single_publish_witness:
  "m_capture (both_staged 4096) \<and> m_cursorEvent (both_staged 4096)
   \<and> ci_hasPos (m_cursorInfo (both_staged 4096)) \<and> ci_hasShape (m_cursorInfo (both_staged 4096))
   \<and> ci_dataSize (m_cursorInfo (both_staged 4096)) \<le> m_cursorDataSize (both_staged 4096)
   \<and> cursor_wait example_params [ClientDoes ClientCursorDone]
        ((both_staged 4096)\<lparr>m_cursorEvent := False\<rparr>)
        (example_shm\<lparr>hdr_cursor := zero_cursor\<lparr>cursor_flags := 8\<rparr>\<rparr>)
       = Ready ((both_staged 4096)\<lparr>m_cursorEvent := False\<rparr>) example_shm
   \<and> (\<exists>svc' shm2.
         CursorThread_pass example_params [ClientDoes ClientCursorDone] (both_staged 4096)
           (example_shm\<lparr>hdr_cursor := zero_cursor\<lparr>cursor_flags := 8\<rparr>\<rparr>)
           = Continue svc' (signal_cursor example_params shm2) []
         \<and> cursor_flags (hdr_cursor shm2) AND 8 = 0
         \<and> cursor_flags (hdr_cursor (signal_cursor example_params shm2)) AND 8 = 8
         \<and> cursor_flags (hdr_cursor (signal_cursor example_params shm2)) AND 1 = 1
         \<and> cursor_flags (hdr_cursor (signal_cursor example_params shm2)) AND 2 = 2
         \<and> cursor_version (hdr_cursor shm2) = 1)"
proof -
  let ?svc0 = "both_staged 4096"
  let ?shm0 = "example_shm\<lparr>hdr_cursor := zero_cursor\<lparr>cursor_flags := 8\<rparr>\<rparr>"
  let ?evs = "[ClientDoes ClientCursorDone]"
  have h: "m_capture ?svc0" "m_cursorEvent ?svc0" "ci_hasPos (m_cursorInfo ?svc0)"
    "ci_hasShape (m_cursorInfo ?svc0)"
    "ci_dataSize (m_cursorInfo ?svc0) \<le> m_cursorDataSize ?svc0"
    by (simp_all add: both_staged_eval)
  have ack: "cursor_wait example_params ?evs (?svc0\<lparr>m_cursorEvent := False\<rparr>) ?shm0
       = Ready (?svc0\<lparr>m_cursorEvent := False\<rparr>) example_shm"
    by (simp add: both_staged_eval example_shm_eval zero_cursor_def)
  have m: "KVMFR_CURSOR_FLAG_POS example_params AND KVMFR_CURSOR_FLAG_UPDATE example_params = 0"
      "KVMFR_CURSOR_FLAG_SHAPE example_params AND KVMFR_CURSOR_FLAG_UPDATE example_params = 0"
      "KVMFR_CURSOR_FLAG_VISIBLE example_params AND KVMFR_CURSOR_FLAG_UPDATE example_params = 0"
      "KVMFR_CURSOR_FLAG_POS example_params AND KVMFR_CURSOR_FLAG_VISIBLE example_params = 0"
    by (simp_all add: example_params_def)
  have c: "KVMFR_CURSOR_FLAG_UPDATE example_params = 8" "KVMFR_CURSOR_FLAG_POS example_params = 1"
    "KVMFR_CURSOR_FLAG_SHAPE example_params = 2" "version_bits example_params = 32"
    "cursor_version (hdr_cursor ?shm0) = 0"
    by (simp_all add: example_params_def zero_cursor_def)
  from double_update_single_publish [OF h ack m]
  have "\<exists>svc' shm2.
         CursorThread_pass example_params ?evs ?svc0 ?shm0
           = Continue svc' (signal_cursor example_params shm2) []
         \<and> cursor_flags (hdr_cursor shm2) AND 8 = 0
         \<and> cursor_flags (hdr_cursor (signal_cursor example_params shm2)) AND 8 = 8
         \<and> cursor_flags (hdr_cursor (signal_cursor example_params shm2)) AND 1 = 1
         \<and> cursor_flags (hdr_cursor (signal_cursor example_params shm2)) AND 2 = 2
         \<and> cursor_version (hdr_cursor shm2) = 1"
    unfolding c by (elim exE conjE, intro exI conjI) simp_all
  with h ack show ?thesis by blast
qed

text \<open>
  Claim C9 as stated fails when the staged shape exceeds the capacity: the one
  publish sets POS, VISIBLE and UPDATE, not SHAPE, and leaves the version counter.
\<close>

theorem oversized_shape_in_double_update:
  "ci_hasPos (m_cursorInfo (both_staged 0x200000))
   \<and> ci_hasShape (m_cursorInfo (both_staged 0x200000))
   \<and> CursorThread_pass example_params [] (both_staged 0x200000) example_shm
      = Continue
          ((both_staged 0x200000)\<lparr>m_cursorEvent := False,
             m_cursorInfo := (m_cursorInfo (both_staged 0x200000))\<lparr>ci_hasPos := False,
               ci_hasShape := False\<rparr>\<rparr>)
          (example_shm\<lparr>hdr_cursor := zero_cursor\<lparr>cursor_flags := 13, cursor_x := 10,
             cursor_y := 20\<rparr>\<rparr>)
          [''Cursor size exceeds allocated space'']
   \<and> (13 :: u8) AND KVMFR_CURSOR_FLAG_SHAPE example_params = 0
   \<and> cursor_version (zero_cursor\<lparr>cursor_flags := 13, cursor_x := 10, cursor_y := 20\<rparr>)
       = cursor_version (hdr_cursor example_shm)"
  by (simp add: cursor_defs both_staged_eval example_shm_eval)

end
